theory Spec2Isabelle
  imports Main
begin

section \<open>Values of the JavaScript runtime\<close>

text \<open>
  The resolver of \<^verbatim>\<open>graphql-query-update-many-resolver.service.ts\<close> handles plain
  JSON-like data: the filter, the update payload, raw rows and formatted records.
  A plain object is modelled by the list of its own properties in enumeration order
  (property names of one object are distinct), so that \<^verbatim>\<open>Object.keys\<close> is the list
  of first components.
\<close>

datatype json =
    JNull
  | JBool bool
  | JNum int
  | JStr string
  | JArr "json list"
  | JObj "(string \<times> json) list"

type_synonym jobject = "(string \<times> json) list"

type_synonym ObjectRecord = jobject

type_synonym addr = nat

text \<open>JavaScript truthiness of a defined value; \<^verbatim>\<open>undefined\<close> is \<open>None\<close> below.\<close>

fun truthy :: "json \<Rightarrow> bool" where
  "truthy JNull = False"
| "truthy (JBool b) = b"
| "truthy (JNum n) = (n \<noteq> 0)"
| "truthy (JStr s) = (s \<noteq> [])"
| "truthy (JArr xs) = True"
| "truthy (JObj kvs) = True"

definition truthy_opt :: "json option \<Rightarrow> bool" where
  "truthy_opt v = (case v of None \<Rightarrow> False | Some x \<Rightarrow> truthy x)"

text \<open>
  Property read \<^verbatim>\<open>v.k\<close> on a value that is neither \<^verbatim>\<open>null\<close> nor
  \<^verbatim>\<open>undefined\<close>, for the two names the resolver reads (\<^verbatim>\<open>id\<close> and \<^verbatim>\<open>in\<close>):
  an object yields its property, every other value has no such property.
\<close>

fun getProp :: "json \<Rightarrow> string \<Rightarrow> json option" where
  "getProp (JObj kvs) k = map_of kvs k"
| "getProp v k = None"

text \<open>Optional chaining \<^verbatim>\<open>v?.k\<close>: short-circuits on \<^verbatim>\<open>undefined\<close> and \<^verbatim>\<open>null\<close>.\<close>

fun optChain :: "json option \<Rightarrow> string \<Rightarrow> json option" where
  "optChain None k = None"
| "optChain (Some JNull) k = None"
| "optChain (Some v) k = getProp v k"

definition Object_keys :: "jobject \<Rightarrow> string list" where
  "Object_keys obj = map fst obj"

section \<open>Errors\<close>

datatype GraphqlQueryRunnerExceptionCode = RECORD_NOT_FOUND

text \<open>
  Every \<^verbatim>\<open>throw\<close> of the source and of its collaborators is a value.
  \<open>Error\<close> is the plain \<^verbatim>\<open>new Error(message)\<close> of \<^verbatim>\<open>validate\<close>,
  \<open>TypeError\<close> the runtime's own error on calling a missing method; the other
  constructors are the failure signals the specification names for the collaborators.
\<close>

datatype error =
    Error string
  | TypeError string
  | GraphqlQueryRunnerException string GraphqlQueryRunnerExceptionCode
  | MutationNotAllowed
  | InvalidIdentifier json
  | UnsupportedFilterOperator
  | MutationExecutionFailed string
  | CollaboratorFailure string

section \<open>Arguments\<close>

record ObjectMetadataItemWithFieldMaps =
  nameSingular :: string
  isCustom :: bool
  isRemote :: bool
  fieldMaps :: json

record UpdateManyResolverArgs =
  filter' :: "json option"
  data :: jobject

record WorkspaceQueryRunnerOptions =
  authContext :: json
  objectMetadataItemWithFieldMaps :: ObjectMetadataItemWithFieldMaps
  objectMetadataMaps :: json

section \<open>Validation\<close>

text \<open>
  Modelled from the spec: \<^verbatim>\<open>assertMutationNotOnRemoteObject\<close>
  (\<^verbatim>\<open>assert-mutation-not-on-remote-object.util\<close>) is not among the sources. Section 4.1:
  validation fails with \<open>MutationNotAllowed\<close> if the target is a non-writable (remote)
  object type.
\<close>

definition assertMutationNotOnRemoteObject :: "ObjectMetadataItemWithFieldMaps \<Rightarrow> error + unit" where
  "assertMutationNotOnRemoteObject objectMetadataItem =
     (if isRemote objectMetadataItem then Inl MutationNotAllowed else Inr ())"

text \<open>
  Modelled from the spec: \<^verbatim>\<open>assertIsValidUuid\<close> (\<^verbatim>\<open>assert-is-valid-uuid.util\<close>) is not
  among the sources. Section 4.1: fails with \<open>InvalidIdentifier\<close> if the value is not
  syntactically a valid identifier. The syntax test itself is the parameter \<open>isValidUuid\<close>.
\<close>

definition assertIsValidUuid :: "(json \<Rightarrow> bool) \<Rightarrow> json \<Rightarrow> error + unit" where
  "assertIsValidUuid isValidUuid v = (if isValidUuid v then Inr () else Inl (InvalidIdentifier v))"

text \<open>\<^verbatim>\<open>Array.prototype.forEach\<close> with a callback that may throw: the first throw ends the loop.\<close>

fun forEach :: "('a \<Rightarrow> error + unit) \<Rightarrow> 'a list \<Rightarrow> error + unit" where
  "forEach f [] = Inr ()"
| "forEach f (x # xs) = (case f x of Inl e \<Rightarrow> Inl e | Inr u \<Rightarrow> forEach f xs)"

text \<open>
  \<^verbatim>\<open>xs?.forEach(f)\<close>: nothing happens on \<^verbatim>\<open>undefined\<close> and \<^verbatim>\<open>null\<close>, an array is
  traversed, and any other value has no \<^verbatim>\<open>forEach\<close> method, which is a \<^verbatim>\<open>TypeError\<close>.
\<close>

fun optForEach :: "json option \<Rightarrow> (json \<Rightarrow> error + unit) \<Rightarrow> error + unit" where
  "optForEach None f = Inr ()"
| "optForEach (Some JNull) f = Inr ()"
| "optForEach (Some (JArr xs)) f = forEach f xs"
| "optForEach (Some v) f = Inl (TypeError ''forEach is not a function'')"

text \<open>
  \<^verbatim>\<open>validate(args, options)\<close>, lines 133 to 143:
  \<^verbatim>\<open>
    assertMutationNotOnRemoteObject(options.objectMetadataItemWithFieldMaps);
    if (!args.filter) { throw new Error('Filter is required'); }
    args.filter.id?.in?.forEach((id: string) => assertIsValidUuid(id));
  \<close>
\<close>

definition validate :: "(json \<Rightarrow> bool) \<Rightarrow> UpdateManyResolverArgs \<Rightarrow> WorkspaceQueryRunnerOptions \<Rightarrow> error + unit" where
  "validate isValidUuid args options =
     (case assertMutationNotOnRemoteObject (objectMetadataItemWithFieldMaps options) of
        Inl e \<Rightarrow> Inl e
      | Inr u \<Rightarrow>
          if \<not> truthy_opt (filter' args) then Inl (Error ''Filter is required'')
          else optForEach (optChain (optChain (filter' args) ''id'') ''in'')
                 (\<lambda>id. assertIsValidUuid isValidUuid id))"

section \<open>The resolver's surroundings\<close>

record GraphqlQuerySelectedFieldsResult =
  relations :: "json option"

record GraphqlQueryResolverExecutionArgs =
  args :: UpdateManyResolverArgs
  options :: WorkspaceQueryRunnerOptions
  graphqlQuerySelectedFieldsResult :: GraphqlQuerySelectedFieldsResult
  roleId :: "string option"
  isExecutedByApiKey :: bool
  workspaceDataSource :: json

text \<open>
  A query builder is a mutable object. Its state is the alias it was created with and the
  filters applied to it so far, each with the name it was applied under; nothing else is
  ever done to a builder by this resolver before its query runs.
\<close>

record WorkspaceQueryBuilder =
  qb_alias :: string
  qb_filters :: "(string \<times> json option) list"

text \<open>The argument object of \<^verbatim>\<open>emitUpdateEvents\<close>; record arrays are arrays of references.\<close>

record UpdateEventsPayload =
  ev_existingRecords :: "addr list"
  ev_records :: "addr list"
  ev_updatedFields :: "string list"
  ev_authContext :: json
  ev_objectMetadataItem :: json

text \<open>The argument object of \<^verbatim>\<open>processNestedRelations\<close>.\<close>

record ProcessNestedRelationsArgs =
  nr_objectMetadataMaps :: json
  nr_parentObjectMetadataItem :: ObjectMetadataItemWithFieldMaps
  nr_parentObjectRecords :: "addr list"
  nr_relations :: json
  nr_limit :: nat
  nr_authContext :: json
  nr_workspaceDataSource :: json
  nr_roleId :: "string option"
  nr_shouldBypassPermissionChecks :: bool

text \<open>The calls the resolver makes on its collaborators, in the order it makes them.\<close>

datatype event =
    EvCreateQueryBuilder addr string
  | EvClone addr addr
  | EvApplyFilterToBuilder addr string "json option"
  | EvGetMany addr
  | EvUpdateReturningExecute addr jobject
  | EvEmitUpdateEvents UpdateEventsPayload
  | EvProcessNestedRelations ProcessNestedRelationsArgs

text \<open>
  The world a call runs in: the storage layer's state, the query builders and the record
  objects allocated so far (an object's address is its index), and the log of calls.
  The content of a record object is a JSON tree, so a record owns everything inside it;
  what two arrays can share is a record object itself, through its address.
\<close>

record 'st world =
  db :: 'st
  builders :: "WorkspaceQueryBuilder list"
  heap :: "ObjectRecord list"
  trace :: "event list"

text \<open>
  The collaborators, none of which is among the sources; the resolver is modelled for
  arbitrary ones. \<open>parserRejects\<close> says whether the filter translation throws,
  \<open>selectRows\<close> and \<open>updateRows\<close> are the storage layer answering the read and the
  write built by a query builder, \<open>formatRow\<close> is \<^verbatim>\<open>formatResult\<close> on one row,
  \<open>emitterThrows\<close> says whether the event emitter throws, and \<open>hydrate\<close> is the
  relation hydrator: it fails, or says what each parent record becomes.
\<close>

record 'st collaborators =
  isValidUuid :: "json \<Rightarrow> bool"
  computeTableName :: "string \<Rightarrow> bool \<Rightarrow> string"
  parserRejects :: "string \<Rightarrow> json option \<Rightarrow> error option"
  selectRows :: "WorkspaceQueryBuilder \<Rightarrow> 'st \<Rightarrow> error + jobject list"
  updateRows :: "WorkspaceQueryBuilder \<Rightarrow> jobject \<Rightarrow> 'st \<Rightarrow> error + (jobject list \<times> 'st)"
  formatData :: "jobject \<Rightarrow> ObjectMetadataItemWithFieldMaps \<Rightarrow> jobject"
  formatRow :: "jobject \<Rightarrow> ObjectMetadataItemWithFieldMaps \<Rightarrow> json \<Rightarrow> ObjectRecord"
  getObjectMetadataFromObjectMetadataItemWithFieldMaps :: "ObjectMetadataItemWithFieldMaps \<Rightarrow> json"
  emitterThrows :: "UpdateEventsPayload \<Rightarrow> ObjectRecord list \<Rightarrow> error option"
  hydrate :: "ProcessNestedRelationsArgs \<Rightarrow> 'st \<Rightarrow> ObjectRecord list \<Rightarrow> error + (ObjectRecord \<Rightarrow> ObjectRecord)"
  processRecord :: "json \<Rightarrow> ObjectRecord \<Rightarrow> string \<Rightarrow> nat \<Rightarrow> nat \<Rightarrow> json"
  QUERY_MAX_RECORDS :: nat

definition logged :: "event \<Rightarrow> 'st world \<Rightarrow> 'st world" where
  "logged ev w = w\<lparr>trace := trace w @ [ev]\<rparr>"

text \<open>\<^verbatim>\<open>repository.createQueryBuilder(alias)\<close>: a new builder with no filter.\<close>

definition createQueryBuilder :: "string \<Rightarrow> 'st world \<Rightarrow> addr \<times> 'st world" where
  "createQueryBuilder name w =
     (let b = length (builders w)
      in (b, logged (EvCreateQueryBuilder b name)
               (w\<lparr>builders := builders w @ [\<lparr>qb_alias = name, qb_filters = []\<rparr>]\<rparr>)))"

text \<open>\<^verbatim>\<open>queryBuilder.clone()\<close>: a new builder object holding a copy of the state.\<close>

definition clone :: "addr \<Rightarrow> 'st world \<Rightarrow> addr \<times> 'st world" where
  "clone b w =
     (let b' = length (builders w)
      in (b', logged (EvClone b b') (w\<lparr>builders := builders w @ [builders w ! b]\<rparr>)))"

text \<open>
  \<^verbatim>\<open>graphqlQueryParser.applyFilterToBuilder(builder, name, filter)\<close>: throws, or mutates
  the builder it was given.
\<close>

definition applyFilterToBuilder ::
  "'st collaborators \<Rightarrow> addr \<Rightarrow> string \<Rightarrow> json option \<Rightarrow> 'st world \<Rightarrow> (error + unit) \<times> 'st world" where
  "applyFilterToBuilder c b name f w =
     (let w' = logged (EvApplyFilterToBuilder b name f) w
      in case parserRejects c name f of
           Some e \<Rightarrow> (Inl e, w')
         | None \<Rightarrow>
             (Inr (), w'\<lparr>builders := (builders w)[b := (builders w ! b)
                 \<lparr>qb_filters := qb_filters (builders w ! b) @ [(name, f)]\<rparr>]\<rparr>))"

text \<open>\<^verbatim>\<open>builder.getMany()\<close>: the read query.\<close>

definition getMany :: "'st collaborators \<Rightarrow> addr \<Rightarrow> 'st world \<Rightarrow> (error + jobject list) \<times> 'st world" where
  "getMany c b w = (selectRows c (builders w ! b) (db w), logged (EvGetMany b) w)"

text \<open>
  \<^verbatim>\<open>builder.update(data).returning('*').execute()\<close> and the \<^verbatim>\<open>raw\<close> rows of its
  result: the write query.
\<close>

definition update_returning_execute ::
  "'st collaborators \<Rightarrow> addr \<Rightarrow> jobject \<Rightarrow> 'st world \<Rightarrow> (error + jobject list) \<times> 'st world" where
  "update_returning_execute c b d w =
     (let w' = logged (EvUpdateReturningExecute b d) w
      in case updateRows c (builders w ! b) d (db w) of
           Inl e \<Rightarrow> (Inl e, w')
         | Inr (raw, db') \<Rightarrow> (Inr raw, w'\<lparr>db := db'\<rparr>))"

text \<open>
  Modelled from the spec: \<^verbatim>\<open>formatResult\<close> (\<^verbatim>\<open>format-result.util\<close>) is not among the
  sources. Section 4.5: it maps a list of raw storage rows to the canonical record shape,
  row by row; the records are new objects.
\<close>

definition formatResult ::
  "'st collaborators \<Rightarrow> jobject list \<Rightarrow> ObjectMetadataItemWithFieldMaps \<Rightarrow> json \<Rightarrow> 'st world
     \<Rightarrow> addr list \<times> 'st world" where
  "formatResult c rows meta maps w =
     ([length (heap w) ..< length (heap w) + length rows],
      w\<lparr>heap := heap w @ map (\<lambda>row. formatRow c row meta maps) rows\<rparr>)"

text \<open>\<^verbatim>\<open>isEmpty\<close> of lodash on an array.\<close>

definition isEmpty :: "'a list \<Rightarrow> bool" where
  "isEmpty xs = (xs = [])"

text \<open>\<^verbatim>\<open>structuredClone\<close> on an array of records: a new array of new objects with equal content.\<close>

definition structuredClone :: "addr list \<Rightarrow> 'st world \<Rightarrow> addr list \<times> 'st world" where
  "structuredClone rs w =
     ([length (heap w) ..< length (heap w) + length rs],
      w\<lparr>heap := heap w @ map (\<lambda>a. heap w ! a) rs\<rparr>)"

definition emitUpdateEvents ::
  "'st collaborators \<Rightarrow> UpdateEventsPayload \<Rightarrow> 'st world \<Rightarrow> (error + unit) \<times> 'st world" where
  "emitUpdateEvents c p w =
     (case emitterThrows c p (heap w) of
        Some e \<Rightarrow> (Inl e, logged (EvEmitUpdateEvents p) w)
      | None \<Rightarrow> (Inr (), logged (EvEmitUpdateEvents p) w))"

text \<open>
  Modelled from the spec: \<^verbatim>\<open>processNestedRelations\<close> is not among the sources. Section
  4.7: it attaches relation data onto the records it was given, in place.
\<close>

definition processNestedRelations ::
  "'st collaborators \<Rightarrow> ProcessNestedRelationsArgs \<Rightarrow> 'st world \<Rightarrow> (error + unit) \<times> 'st world" where
  "processNestedRelations c a w =
     (let w' = logged (EvProcessNestedRelations a) w
      in case hydrate c a (db w) (map (\<lambda>p. heap w ! p) (nr_parentObjectRecords a)) of
           Inl e \<Rightarrow> (Inl e, w')
         | Inr f \<Rightarrow>
             (Inr (), w'\<lparr>heap := fold (\<lambda>p h. h[p := f (h ! p)]) (nr_parentObjectRecords a) (heap w)\<rparr>))"

section \<open>The batch update\<close>

text \<open>
  \<^verbatim>\<open>resolve(executionArgs)\<close>, lines 31 to 131, statement by statement. A throw ends the
  call with the world as it is at that moment. The returned connections are computed from
  the updated records as they are at the end, after the optional hydration in place.
  Every address \<open>resolve\<close> reads from was allocated earlier in the same call, so no
  read is out of range; the lemmas on the segments compute each of them.
\<close>

definition resolve ::
  "'st collaborators \<Rightarrow> GraphqlQueryResolverExecutionArgs \<Rightarrow> 'st world \<Rightarrow> (error + json list) \<times> 'st world" where
  "resolve c executionArgs w0 =
     (let meta = objectMetadataItemWithFieldMaps (options executionArgs);
          maps = objectMetadataMaps (options executionArgs);
          (queryBuilder, w1) = createQueryBuilder (nameSingular meta) w0;
          (existingRecordsBuilder, w2) = clone queryBuilder w1
      in case applyFilterToBuilder c existingRecordsBuilder (nameSingular meta)
                (filter' (args executionArgs)) w2 of
           (Inl e, w3) \<Rightarrow> (Inl e, w3)
         | (Inr u, w3) \<Rightarrow>
      (case getMany c existingRecordsBuilder w3 of
           (Inl e, w4) \<Rightarrow> (Inl e, w4)
         | (Inr existingRecords, w4) \<Rightarrow>
      (let (formattedExistingRecords, w5) = formatResult c existingRecords meta maps w4
       in if isEmpty formattedExistingRecords
          then (Inl (GraphqlQueryRunnerException ''Records not found'' RECORD_NOT_FOUND), w5)
          else
      (let tableName = computeTableName c (nameSingular meta) (isCustom meta)
       in case applyFilterToBuilder c queryBuilder tableName (filter' (args executionArgs)) w5 of
           (Inl e, w6) \<Rightarrow> (Inl e, w6)
         | (Inr u, w6) \<Rightarrow>
      (let data' = formatData c (data (args executionArgs)) meta
       in case update_returning_execute c queryBuilder data' w6 of
           (Inl e, w7) \<Rightarrow> (Inl e, w7)
         | (Inr raw, w7) \<Rightarrow>
      (let (formattedUpdatedRecords, w8) = formatResult c raw meta maps w7;
           (existingCopy, w9) = structuredClone formattedExistingRecords w8;
           (updatedCopy, w10) = structuredClone formattedUpdatedRecords w9
       in case emitUpdateEvents c
                 \<lparr>ev_existingRecords = existingCopy,
                  ev_records = updatedCopy,
                  ev_updatedFields = Object_keys (data (args executionArgs)),
                  ev_authContext = authContext (options executionArgs),
                  ev_objectMetadataItem =
                    getObjectMetadataFromObjectMetadataItemWithFieldMaps c meta\<rparr> w10 of
           (Inl e, w11) \<Rightarrow> (Inl e, w11)
         | (Inr u, w11) \<Rightarrow>
      (case (case relations (graphqlQuerySelectedFieldsResult executionArgs) of
               None \<Rightarrow> (Inr (), w11)
             | Some rel \<Rightarrow>
                 if truthy rel
                 then processNestedRelations c
                        \<lparr>nr_objectMetadataMaps = maps,
                         nr_parentObjectMetadataItem = meta,
                         nr_parentObjectRecords = formattedExistingRecords @ formattedUpdatedRecords,
                         nr_relations = rel,
                         nr_limit = QUERY_MAX_RECORDS c,
                         nr_authContext = authContext (options executionArgs),
                         nr_workspaceDataSource = workspaceDataSource executionArgs,
                         nr_roleId = roleId executionArgs,
                         nr_shouldBypassPermissionChecks = isExecutedByApiKey executionArgs\<rparr> w11
                 else (Inr (), w11)) of
           (Inl e, w12) \<Rightarrow> (Inl e, w12)
         | (Inr u, w12) \<Rightarrow>
             (Inr (map (\<lambda>record. processRecord c maps (heap w12 ! record) (nameSingular meta) 1 1)
                     formattedUpdatedRecords), w12))))))))"

text \<open>
  Modelled from the spec: the base resolver service
  (\<^verbatim>\<open>GraphqlQueryBaseResolverService\<close>) that runs \<^verbatim>\<open>validate\<close> and then
  \<^verbatim>\<open>resolve\<close> is not among the sources. Section 2, control flow: the Validator comes
  first, and a validation error is surfaced with no query executed (section 7).
\<close>

definition execute ::
  "'st collaborators \<Rightarrow> GraphqlQueryResolverExecutionArgs \<Rightarrow> 'st world \<Rightarrow> (error + json list) \<times> 'st world" where
  "execute c executionArgs w =
     (case validate (isValidUuid c) (args executionArgs) (options executionArgs) of
        Inl e \<Rightarrow> (Inl e, w)
      | Inr u \<Rightarrow> resolve c executionArgs w)"

section \<open>The segments of the batch update\<close>

text \<open>
  The body of \<^verbatim>\<open>resolve\<close> cut into five consecutive segments, for the proofs: the
  existence snapshot (lines 39 to 64), the mutation (lines 66 to 91), the emission of the
  change event (lines 93 to 101), the optional hydration (lines 103 to 118) and the shaping
  of the result (lines 120 to 130). Lemma \<open>resolve_stages\<close> below shows that
  \<open>resolve\<close> is their composition.
\<close>

abbreviation metaOf :: "GraphqlQueryResolverExecutionArgs \<Rightarrow> ObjectMetadataItemWithFieldMaps" where
  "metaOf ea \<equiv> objectMetadataItemWithFieldMaps (options ea)"

abbreviation filterOf :: "GraphqlQueryResolverExecutionArgs \<Rightarrow> json option" where
  "filterOf ea \<equiv> filter' (args ea)"

definition snapshotStage ::
  "'st collaborators \<Rightarrow> GraphqlQueryResolverExecutionArgs \<Rightarrow> 'st world \<Rightarrow> (error + addr \<times> addr list) \<times> 'st world" where
  "snapshotStage c executionArgs w0 =
     (let meta = objectMetadataItemWithFieldMaps (options executionArgs);
          maps = objectMetadataMaps (options executionArgs);
          (queryBuilder, w1) = createQueryBuilder (nameSingular meta) w0;
          (existingRecordsBuilder, w2) = clone queryBuilder w1
      in case applyFilterToBuilder c existingRecordsBuilder (nameSingular meta)
                (filter' (args executionArgs)) w2 of
           (Inl e, w3) \<Rightarrow> (Inl e, w3)
         | (Inr u, w3) \<Rightarrow>
      (case getMany c existingRecordsBuilder w3 of
           (Inl e, w4) \<Rightarrow> (Inl e, w4)
         | (Inr existingRecords, w4) \<Rightarrow>
      (let (formattedExistingRecords, w5) = formatResult c existingRecords meta maps w4
       in if isEmpty formattedExistingRecords
          then (Inl (GraphqlQueryRunnerException ''Records not found'' RECORD_NOT_FOUND), w5)
          else (Inr (queryBuilder, formattedExistingRecords), w5))))"

definition mutationStage ::
  "'st collaborators \<Rightarrow> GraphqlQueryResolverExecutionArgs \<Rightarrow> addr \<Rightarrow> 'st world \<Rightarrow> (error + addr list) \<times> 'st world" where
  "mutationStage c executionArgs queryBuilder w5 =
     (let meta = objectMetadataItemWithFieldMaps (options executionArgs);
          maps = objectMetadataMaps (options executionArgs);
          tableName = computeTableName c (nameSingular meta) (isCustom meta)
       in case applyFilterToBuilder c queryBuilder tableName (filter' (args executionArgs)) w5 of
           (Inl e, w6) \<Rightarrow> (Inl e, w6)
         | (Inr u, w6) \<Rightarrow>
      (let data' = formatData c (data (args executionArgs)) meta
       in case update_returning_execute c queryBuilder data' w6 of
           (Inl e, w7) \<Rightarrow> (Inl e, w7)
         | (Inr raw, w7) \<Rightarrow>
      (let (formattedUpdatedRecords, w8) = formatResult c raw meta maps w7
       in (Inr formattedUpdatedRecords, w8))))"

definition emissionStage ::
  "'st collaborators \<Rightarrow> GraphqlQueryResolverExecutionArgs \<Rightarrow> addr list \<Rightarrow> addr list \<Rightarrow> 'st world \<Rightarrow> (error + unit) \<times> 'st world" where
  "emissionStage c executionArgs formattedExistingRecords formattedUpdatedRecords w8 =
      (let (existingCopy, w9) = structuredClone formattedExistingRecords w8;
           (updatedCopy, w10) = structuredClone formattedUpdatedRecords w9
       in emitUpdateEvents c
                 \<lparr>ev_existingRecords = existingCopy,
                  ev_records = updatedCopy,
                  ev_updatedFields = Object_keys (data (args executionArgs)),
                  ev_authContext = authContext (options executionArgs),
                  ev_objectMetadataItem =
                    getObjectMetadataFromObjectMetadataItemWithFieldMaps c (objectMetadataItemWithFieldMaps (options executionArgs))\<rparr> w10)"

definition hydrationStage ::
  "'st collaborators \<Rightarrow> GraphqlQueryResolverExecutionArgs \<Rightarrow> addr list \<Rightarrow> addr list \<Rightarrow> 'st world \<Rightarrow> (error + unit) \<times> 'st world" where
  "hydrationStage c executionArgs formattedExistingRecords formattedUpdatedRecords w11 =
     (case relations (graphqlQuerySelectedFieldsResult executionArgs) of
               None \<Rightarrow> (Inr (), w11)
             | Some rel \<Rightarrow>
                 if truthy rel
                 then processNestedRelations c
                        \<lparr>nr_objectMetadataMaps = objectMetadataMaps (options executionArgs),
                         nr_parentObjectMetadataItem = objectMetadataItemWithFieldMaps (options executionArgs),
                         nr_parentObjectRecords = formattedExistingRecords @ formattedUpdatedRecords,
                         nr_relations = rel,
                         nr_limit = QUERY_MAX_RECORDS c,
                         nr_authContext = authContext (options executionArgs),
                         nr_workspaceDataSource = workspaceDataSource executionArgs,
                         nr_roleId = roleId executionArgs,
                         nr_shouldBypassPermissionChecks = isExecutedByApiKey executionArgs\<rparr> w11
                 else (Inr (), w11))"

definition shapingStage ::
  "'st collaborators \<Rightarrow> GraphqlQueryResolverExecutionArgs \<Rightarrow> addr list \<Rightarrow> 'st world \<Rightarrow> json list" where
  "shapingStage c executionArgs formattedUpdatedRecords w12 =
     map (\<lambda>record. processRecord c (objectMetadataMaps (options executionArgs)) (heap w12 ! record)
            (nameSingular (objectMetadataItemWithFieldMaps (options executionArgs))) 1 1)
       formattedUpdatedRecords"

section \<open>Runs\<close>

text \<open>
  Names for what a run of \<open>resolve\<close> from a world \<open>w\<close> builds: the states of the two
  query builders, the formatted rows, the calls logged, the argument objects handed to the
  emitter and the hydrator, and the world after each segment. Below, \<open>rowsE\<close> are the rows
  the read returned and \<open>rowsU\<close> the rows the write returned.
\<close>

definition tableNameOf :: "'st collaborators \<Rightarrow> GraphqlQueryResolverExecutionArgs \<Rightarrow> string" where
  "tableNameOf c ea = computeTableName c (nameSingular (metaOf ea)) (isCustom (metaOf ea))"

definition baseBuilder :: "GraphqlQueryResolverExecutionArgs \<Rightarrow> WorkspaceQueryBuilder" where
  "baseBuilder ea = \<lparr>qb_alias = nameSingular (metaOf ea), qb_filters = []\<rparr>"

definition snapshotBuilder :: "GraphqlQueryResolverExecutionArgs \<Rightarrow> WorkspaceQueryBuilder" where
  "snapshotBuilder ea =
     \<lparr>qb_alias = nameSingular (metaOf ea), qb_filters = [(nameSingular (metaOf ea), filterOf ea)]\<rparr>"

definition mutationBuilder :: "'st collaborators \<Rightarrow> GraphqlQueryResolverExecutionArgs \<Rightarrow> WorkspaceQueryBuilder" where
  "mutationBuilder c ea =
     \<lparr>qb_alias = nameSingular (metaOf ea), qb_filters = [(tableNameOf c ea, filterOf ea)]\<rparr>"

definition formatted :: "'st collaborators \<Rightarrow> GraphqlQueryResolverExecutionArgs \<Rightarrow> jobject list \<Rightarrow> ObjectRecord list" where
  "formatted c ea rows = map (\<lambda>row. formatRow c row (metaOf ea) (objectMetadataMaps (options ea))) rows"

definition storageData :: "'st collaborators \<Rightarrow> GraphqlQueryResolverExecutionArgs \<Rightarrow> jobject" where
  "storageData c ea = formatData c (data (args ea)) (metaOf ea)"

definition prologueEvents :: "GraphqlQueryResolverExecutionArgs \<Rightarrow> 'st world \<Rightarrow> event list" where
  "prologueEvents ea w =
     [EvCreateQueryBuilder (length (builders w)) (nameSingular (metaOf ea)),
      EvClone (length (builders w)) (Suc (length (builders w))),
      EvApplyFilterToBuilder (Suc (length (builders w))) (nameSingular (metaOf ea)) (filterOf ea)]"

definition snapshotEvents :: "GraphqlQueryResolverExecutionArgs \<Rightarrow> 'st world \<Rightarrow> event list" where
  "snapshotEvents ea w = prologueEvents ea w @ [EvGetMany (Suc (length (builders w)))]"

definition mutationEvents :: "'st collaborators \<Rightarrow> GraphqlQueryResolverExecutionArgs \<Rightarrow> 'st world \<Rightarrow> event list" where
  "mutationEvents c ea w =
     [EvApplyFilterToBuilder (length (builders w)) (tableNameOf c ea) (filterOf ea),
      EvUpdateReturningExecute (length (builders w)) (storageData c ea)]"

definition existingAt :: "'st world \<Rightarrow> nat \<Rightarrow> addr list" where
  "existingAt w nE = [length (heap w) ..< length (heap w) + nE]"

definition updatedAt :: "'st world \<Rightarrow> nat \<Rightarrow> nat \<Rightarrow> addr list" where
  "updatedAt w nE nU = [length (heap w) + nE ..< length (heap w) + nE + nU]"

definition emittedPayload ::
  "'st collaborators \<Rightarrow> GraphqlQueryResolverExecutionArgs \<Rightarrow> 'st world \<Rightarrow> nat \<Rightarrow> nat \<Rightarrow> UpdateEventsPayload" where
  "emittedPayload c ea w nE nU =
     \<lparr>ev_existingRecords = [length (heap w) + nE + nU ..< length (heap w) + nE + nU + nE],
      ev_records = [length (heap w) + nE + nU + nE ..< length (heap w) + nE + nU + nE + nU],
      ev_updatedFields = Object_keys (data (args ea)),
      ev_authContext = authContext (options ea),
      ev_objectMetadataItem = getObjectMetadataFromObjectMetadataItemWithFieldMaps c (metaOf ea)\<rparr>"

definition heapAtEmission ::
  "'st collaborators \<Rightarrow> GraphqlQueryResolverExecutionArgs \<Rightarrow> 'st world \<Rightarrow> jobject list \<Rightarrow> jobject list \<Rightarrow> ObjectRecord list" where
  "heapAtEmission c ea w rowsE rowsU =
     heap w @ formatted c ea rowsE @ formatted c ea rowsU @ formatted c ea rowsE @ formatted c ea rowsU"

definition hydrationArgs ::
  "'st collaborators \<Rightarrow> GraphqlQueryResolverExecutionArgs \<Rightarrow> 'st world \<Rightarrow> nat \<Rightarrow> nat \<Rightarrow> json \<Rightarrow> ProcessNestedRelationsArgs" where
  "hydrationArgs c ea w nE nU rel =
     \<lparr>nr_objectMetadataMaps = objectMetadataMaps (options ea),
      nr_parentObjectMetadataItem = metaOf ea,
      nr_parentObjectRecords = existingAt w nE @ updatedAt w nE nU,
      nr_relations = rel,
      nr_limit = QUERY_MAX_RECORDS c,
      nr_authContext = authContext (options ea),
      nr_workspaceDataSource = workspaceDataSource ea,
      nr_roleId = roleId ea,
      nr_shouldBypassPermissionChecks = isExecutedByApiKey ea\<rparr>"

definition afterPrologue :: "GraphqlQueryResolverExecutionArgs \<Rightarrow> 'st world \<Rightarrow> 'st world" where
  "afterPrologue ea w =
     w\<lparr>builders := builders w @ [baseBuilder ea, baseBuilder ea],
       trace := trace w @ prologueEvents ea w\<rparr>"

definition afterSnapshot ::
  "'st collaborators \<Rightarrow> GraphqlQueryResolverExecutionArgs \<Rightarrow> 'st world \<Rightarrow> jobject list \<Rightarrow> 'st world" where
  "afterSnapshot c ea w rowsE =
     w\<lparr>builders := builders w @ [baseBuilder ea, snapshotBuilder ea],
       heap := heap w @ formatted c ea rowsE,
       trace := trace w @ snapshotEvents ea w\<rparr>"

definition afterRejection ::
  "'st collaborators \<Rightarrow> GraphqlQueryResolverExecutionArgs \<Rightarrow> 'st world \<Rightarrow> jobject list \<Rightarrow> 'st world" where
  "afterRejection c ea w rowsE =
     w\<lparr>builders := builders w @ [baseBuilder ea, snapshotBuilder ea],
       heap := heap w @ formatted c ea rowsE,
       trace := trace w @ snapshotEvents ea w @ [hd (mutationEvents c ea w)]\<rparr>"

definition afterFailedWrite ::
  "'st collaborators \<Rightarrow> GraphqlQueryResolverExecutionArgs \<Rightarrow> 'st world \<Rightarrow> jobject list \<Rightarrow> 'st world" where
  "afterFailedWrite c ea w rowsE =
     w\<lparr>builders := builders w @ [mutationBuilder c ea, snapshotBuilder ea],
       heap := heap w @ formatted c ea rowsE,
       trace := trace w @ snapshotEvents ea w @ mutationEvents c ea w\<rparr>"

definition afterMutation ::
  "'st collaborators \<Rightarrow> GraphqlQueryResolverExecutionArgs \<Rightarrow> 'st world \<Rightarrow> jobject list \<Rightarrow> jobject list \<Rightarrow> 'st \<Rightarrow> 'st world" where
  "afterMutation c ea w rowsE rowsU db' =
     w\<lparr>db := db',
       builders := builders w @ [mutationBuilder c ea, snapshotBuilder ea],
       heap := heap w @ formatted c ea rowsE @ formatted c ea rowsU,
       trace := trace w @ snapshotEvents ea w @ mutationEvents c ea w\<rparr>"

definition afterEmission ::
  "'st collaborators \<Rightarrow> GraphqlQueryResolverExecutionArgs \<Rightarrow> 'st world \<Rightarrow> jobject list \<Rightarrow> jobject list \<Rightarrow> 'st \<Rightarrow> 'st world" where
  "afterEmission c ea w rowsE rowsU db' =
     w\<lparr>db := db',
       builders := builders w @ [mutationBuilder c ea, snapshotBuilder ea],
       heap := heapAtEmission c ea w rowsE rowsU,
       trace := trace w @ snapshotEvents ea w @ mutationEvents c ea w
                  @ [EvEmitUpdateEvents (emittedPayload c ea w (length rowsE) (length rowsU))]\<rparr>"

definition afterFailedHydration ::
  "'st collaborators \<Rightarrow> GraphqlQueryResolverExecutionArgs \<Rightarrow> 'st world \<Rightarrow> jobject list \<Rightarrow> jobject list \<Rightarrow> 'st \<Rightarrow> json \<Rightarrow> 'st world" where
  "afterFailedHydration c ea w rowsE rowsU db' rel =
     w\<lparr>db := db',
       builders := builders w @ [mutationBuilder c ea, snapshotBuilder ea],
       heap := heapAtEmission c ea w rowsE rowsU,
       trace := trace w @ snapshotEvents ea w @ mutationEvents c ea w
                  @ [EvEmitUpdateEvents (emittedPayload c ea w (length rowsE) (length rowsU)),
                     EvProcessNestedRelations (hydrationArgs c ea w (length rowsE) (length rowsU) rel)]\<rparr>"

definition afterHydration ::
  "'st collaborators \<Rightarrow> GraphqlQueryResolverExecutionArgs \<Rightarrow> 'st world \<Rightarrow> jobject list \<Rightarrow> jobject list \<Rightarrow> 'st \<Rightarrow> json
     \<Rightarrow> (ObjectRecord \<Rightarrow> ObjectRecord) \<Rightarrow> 'st world" where
  "afterHydration c ea w rowsE rowsU db' rel f =
     w\<lparr>db := db',
       builders := builders w @ [mutationBuilder c ea, snapshotBuilder ea],
       heap := heap w @ map f (formatted c ea rowsE) @ map f (formatted c ea rowsU)
                 @ formatted c ea rowsE @ formatted c ea rowsU,
       trace := trace w @ snapshotEvents ea w @ mutationEvents c ea w
                  @ [EvEmitUpdateEvents (emittedPayload c ea w (length rowsE) (length rowsU)),
                     EvProcessNestedRelations (hydrationArgs c ea w (length rowsE) (length rowsU) rel)]\<rparr>"

abbreviation notFound :: error where
  "notFound \<equiv> GraphqlQueryRunnerException ''Records not found'' RECORD_NOT_FOUND"

definition shaped :: "'st collaborators \<Rightarrow> GraphqlQueryResolverExecutionArgs \<Rightarrow> ObjectRecord list \<Rightarrow> json list" where
  "shaped c ea rs = map (\<lambda>r. processRecord c (objectMetadataMaps (options ea)) r (nameSingular (metaOf ea)) 1 1) rs"

section \<open>Observing a run\<close>


fun isRead :: "event \<Rightarrow> bool" where
  "isRead (EvGetMany b) = True"
| "isRead ev = False"

fun isWrite :: "event \<Rightarrow> bool" where
  "isWrite (EvUpdateReturningExecute b d) = True"
| "isWrite ev = False"

fun isEmit :: "event \<Rightarrow> bool" where
  "isEmit (EvEmitUpdateEvents p) = True"
| "isEmit ev = False"

fun isHydrate :: "event \<Rightarrow> bool" where
  "isHydrate (EvProcessNestedRelations a) = True"
| "isHydrate ev = False"

definition newEvents :: "'st world \<Rightarrow> 'st world \<Rightarrow> event list" where
  "newEvents w w' = drop (length (trace w)) (trace w')"

definition snapshotFails :: "'st collaborators \<Rightarrow> GraphqlQueryResolverExecutionArgs \<Rightarrow> 'st world \<Rightarrow> bool" where
  "snapshotFails c ea w =
     (parserRejects c (nameSingular (metaOf ea)) (filterOf ea) \<noteq> None \<or>
      (case selectRows c (snapshotBuilder ea) (db w) of Inl e \<Rightarrow> True | Inr rows \<Rightarrow> rows = []))"

definition mutationFails :: "'st collaborators \<Rightarrow> GraphqlQueryResolverExecutionArgs \<Rightarrow> 'st world \<Rightarrow> bool" where
  "mutationFails c ea w =
     (parserRejects c (tableNameOf c ea) (filterOf ea) \<noteq> None \<or>
      isl (updateRows c (mutationBuilder c ea) (storageData c ea) (db w)))"

text \<open>
  The specification's notion of the identifier values of a filter (section 3: the
  identifier-valued leaves of the filter tree): every value of an ``id is one of'' clause,
  at any depth. It is compared below with what \<open>validate\<close> looks at.
\<close>

fun idInValues :: "json \<Rightarrow> json list" where
  "idInValues (JObj kvs) =
     concat (map (\<lambda>(k, v).
        (if k = ''id'' then (case getProp v ''in'' of Some (JArr ids) \<Rightarrow> ids | _ \<Rightarrow> []) else [])
        @ idInValues v) kvs)"
| "idInValues (JArr xs) = concat (map idInValues xs)"
| "idInValues v = []"

section \<open>A worked instance\<close>

text \<open>
  An instance of the collaborators for the worked examples: the storage is a table of rows,
  the filter translation accepts the filters of the form \<^verbatim>\<open>{id: {in: [...]}}\<close> and rejects
  every other one, formatting is the identity, the emitter never throws, and the hydrator
  attaches the requested relations to each record. Identifiers have the canonical text form
  of a UUID. The theorems below hold for arbitrary collaborators; the instance only
  serves to run them.
\<close>

definition uuidSyntax :: "json \<Rightarrow> bool" where
  "uuidSyntax v =
     (case v of
        JStr s \<Rightarrow>
          map (\<lambda>ch. if ch = CHR ''-'' then CHR ''-''
                     else if ch \<in> set ''0123456789abcdefABCDEF'' then CHR ''h'' else CHR ''?'') s
            = ''hhhhhhhh-hhhh-hhhh-hhhh-hhhhhhhhhhhh''
      | _ \<Rightarrow> False)"

definition idsOf :: "json option \<Rightarrow> json list option" where
  "idsOf f = (case optChain (optChain f ''id'') ''in'' of Some (JArr ids) \<Rightarrow> Some ids | _ \<Rightarrow> None)"

definition hits :: "WorkspaceQueryBuilder \<Rightarrow> jobject \<Rightarrow> bool" where
  "hits qb row =
     list_all (\<lambda>(n, f). case idsOf f of
                           None \<Rightarrow> False
                         | Some ids \<Rightarrow> (case map_of row ''id'' of None \<Rightarrow> False | Some i \<Rightarrow> i \<in> set ids))
       (qb_filters qb)"

definition patch :: "jobject \<Rightarrow> jobject \<Rightarrow> jobject" where
  "patch d row = map (\<lambda>(k, v). (k, case map_of d k of None \<Rightarrow> v | Some v' \<Rightarrow> v')) row"

definition tableStore :: "(jobject list) collaborators" where
  "tableStore =
     \<lparr>isValidUuid = uuidSyntax,
      computeTableName = (\<lambda>n custom. if custom then CHR ''_'' # n else n),
      parserRejects = (\<lambda>n f. case idsOf f of None \<Rightarrow> Some UnsupportedFilterOperator | Some ids \<Rightarrow> None),
      selectRows = (\<lambda>qb t. Inr (filter (hits qb) t)),
      updateRows = (\<lambda>qb d t. Inr (map (patch d) (filter (hits qb) t),
                               map (\<lambda>row. if hits qb row then patch d row else row) t)),
      formatData = (\<lambda>d m. d),
      formatRow = (\<lambda>row m maps. row),
      getObjectMetadataFromObjectMetadataItemWithFieldMaps = (\<lambda>m. JStr (nameSingular m)),
      emitterThrows = (\<lambda>p h. None),
      hydrate = (\<lambda>a t ps. Inr (\<lambda>r. r @ [(''company'', nr_relations a)])),
      processRecord = (\<lambda>maps r n take total.
         JObj [(''edges'', JArr [JObj [(''node'', JObj r)]]), (''totalCount'', JNum (int total))]),
      QUERY_MAX_RECORDS = 200\<rparr>"

definition idA :: json where
  "idA = JStr ''20202020-0000-4000-8000-00000000000a''"

definition idB :: json where
  "idB = JStr ''20202020-0000-4000-8000-00000000000b''"

definition idC :: json where
  "idC = JStr ''20202020-0000-4000-8000-00000000000c''"

definition task :: "json \<Rightarrow> string \<Rightarrow> jobject" where
  "task i s = [(''id'', i), (''status'', JStr s)]"

definition tasks :: "(jobject list) world" where
  "tasks = \<lparr>db = [task idA ''open'', task idB ''done'', task idC ''open''], builders = [], heap = [], trace = []\<rparr>"

definition taskMeta :: ObjectMetadataItemWithFieldMaps where
  "taskMeta = \<lparr>nameSingular = ''task'', isCustom = True, isRemote = False, fieldMaps = JNull\<rparr>"

definition call ::
  "ObjectMetadataItemWithFieldMaps \<Rightarrow> json option \<Rightarrow> json option \<Rightarrow> GraphqlQueryResolverExecutionArgs" where
  "call m f rel =
     \<lparr>args = \<lparr>filter' = f, data = [(''status'', JStr ''done'')]\<rparr>,
      options = \<lparr>authContext = JStr ''workspace-member'', objectMetadataItemWithFieldMaps = m,
                 objectMetadataMaps = JNull\<rparr>,
      graphqlQuerySelectedFieldsResult = \<lparr>relations = rel\<rparr>,
      roleId = None,
      isExecutedByApiKey = True,
      workspaceDataSource = JNull\<rparr>"

definition idIn :: "json list \<Rightarrow> json" where
  "idIn ids = JObj [(''id'', JObj [(''in'', JArr ids)])]"

definition updateTwo :: "json option \<Rightarrow> GraphqlQueryResolverExecutionArgs" where
  "updateTwo rel = call taskMeta (Some (idIn [idA, idB])) rel"

definition companySelection :: json where
  "companySelection = JObj [(''company'', JBool True)]"

definition remoteMeta :: ObjectMetadataItemWithFieldMaps where
  "remoteMeta = taskMeta\<lparr>isRemote := True\<rparr>"

definition nestedFilter :: json where
  "nestedFilter = JObj [(''and'', JArr [idIn [JStr ''not-a-uuid'']])]"

definition otherOperators :: json where
  "otherOperators =
     JObj [(''or'', JArr [idIn [JStr ''not-a-uuid'']]),
           (''id'', JObj [(''eq'', JStr ''not-a-uuid'')]),
           (''ownerId'', JObj [(''in'', JArr [JStr ''not-a-uuid''])])]"

text \<open>
  The specification's notion of a field selection that requests related entities (section
  4.7): its \<^verbatim>\<open>relations\<close> member is an object naming at least one relation. It is
  compared below with the test of line 103, which is the truthiness of that member.
\<close>

definition requestsRelations :: "json option \<Rightarrow> bool" where
  "requestsRelations rel = (case rel of Some (JObj kvs) \<Rightarrow> kvs \<noteq> [] | _ \<Rightarrow> False)"

definition emptySelection :: json where
  "emptySelection = JObj []"



section \<open>The batch update, segment by segment\<close>

lemma resolve_stages:
  "resolve c ea w0 =
     (case snapshotStage c ea w0 of
        (Inl e, w5) \<Rightarrow> (Inl e, w5)
      | (Inr (queryBuilder, fE), w5) \<Rightarrow>
     (case mutationStage c ea queryBuilder w5 of
        (Inl e, w8) \<Rightarrow> (Inl e, w8)
      | (Inr fU, w8) \<Rightarrow>
     (case emissionStage c ea fE fU w8 of
        (Inl e, w11) \<Rightarrow> (Inl e, w11)
      | (Inr u, w11) \<Rightarrow>
     (case hydrationStage c ea fE fU w11 of
        (Inl e, w12) \<Rightarrow> (Inl e, w12)
      | (Inr u, w12) \<Rightarrow> (Inr (shapingStage c ea fU w12), w12)))))"
  unfolding resolve_def snapshotStage_def mutationStage_def emissionStage_def hydrationStage_def
    shapingStage_def Let_def
  by (simp split: prod.splits sum.splits)

lemmas wrappers = logged_def createQueryBuilder_def clone_def applyFilterToBuilder_def getMany_def
  update_returning_execute_def formatResult_def structuredClone_def emitUpdateEvents_def
  processNestedRelations_def isEmpty_def

lemmas helpers = tableNameOf_def baseBuilder_def snapshotBuilder_def mutationBuilder_def
  formatted_def storageData_def prologueEvents_def snapshotEvents_def mutationEvents_def existingAt_def updatedAt_def
  emittedPayload_def heapAtEmission_def hydrationArgs_def

lemmas worlds = afterPrologue_def afterSnapshot_def afterRejection_def afterFailedWrite_def
  afterMutation_def afterEmission_def afterFailedHydration_def afterHydration_def

text \<open>Reads and updates of a list at the addresses just behind a known prefix.\<close>

lemma upd_app2: "(xs @ [a, b])[Suc (length xs) := v] = xs @ [a, v]"
  by (simp add: list_update_append)

lemma upd_app1: "(xs @ a # ys)[length xs := v] = xs @ v # ys"
  by (simp add: list_update_append)

lemma nth_app2: "(xs @ [a, b]) ! Suc (length xs) = b"
  by (simp add: nth_append)

lemma map_nth_window:
  "map (\<lambda>a. (xs @ ys @ zs) ! a) [length xs ..< length xs + length ys] = ys"
  by (rule map_upt_eqI) (simp_all add: nth_append)

lemma clone_first:
  assumes "length fE = nE"
  shows "map (\<lambda>a. (H @ fE @ Z) ! a) [length H ..< length H + nE] = fE"
  using map_nth_window [of H fE Z] assms by simp

lemma clone_second:
  assumes "length fE = nE" and "length fU = nU"
  shows "map (\<lambda>a. (H @ fE @ fU @ Z) ! a) [length H + nE ..< length H + (nE + nU)] = fU"
  using map_nth_window [of "H @ fE" fU Z] assms by (simp add: add.assoc)

lemma fold_upd_window:
  "fold (\<lambda>p h. h[p := f (h ! p)]) [length xs ..< length xs + length ys] (xs @ ys @ zs)
     = xs @ map f ys @ zs"
proof (induction ys arbitrary: xs)
  case Nil
  then show ?case by simp
next
  case (Cons y ys)
  have "[length xs ..< length xs + length (y # ys)]
          = length xs # [Suc (length xs) ..< length xs + length (y # ys)]"
    by (rule upt_conv_Cons) simp
  then have "[length xs ..< length xs + length (y # ys)]
          = length xs # [length (xs @ [f y]) ..< length (xs @ [f y]) + length ys]"
    by simp
  moreover have "(xs @ (y # ys) @ zs)[length xs := f ((xs @ (y # ys) @ zs) ! length xs)]
          = (xs @ [f y]) @ ys @ zs"
    by (simp add: upd_app1)
  ultimately show ?case
    using Cons.IH [of "xs @ [f y]"] by simp
qed

lemma hydrate_first:
  assumes "length fE = nE"
  shows "fold (\<lambda>p h. h[p := f (h ! p)]) [length H ..< length H + nE] (H @ fE @ Z) = H @ map f fE @ Z"
  using fold_upd_window [of f H fE Z] assms by simp

lemma hydrate_second:
  assumes "length fE = nE" and "length fU = nU"
  shows "fold (\<lambda>p h. h[p := f (h ! p)]) [length H + nE ..< length H + (nE + nU)] (H @ fE @ fU @ Z)
           = H @ fE @ map f fU @ Z"
  using fold_upd_window [of f "H @ fE" fU Z] assms by (simp add: add.assoc)

lemma shape_second:
  assumes "length fE = nE" and "length fU = nU"
  shows "map (\<lambda>a. g ((H @ fE @ fU @ Z) ! a)) [length H + nE ..< length H + (nE + nU)] = map g fU"
proof -
  have "map (\<lambda>a. g ((H @ fE @ fU @ Z) ! a)) [length H + nE ..< length H + (nE + nU)]
          = map g (map (\<lambda>a. (H @ fE @ fU @ Z) ! a) [length H + nE ..< length H + (nE + nU)])"
    by simp
  then show ?thesis
    by (simp only: clone_second [OF assms])
qed

text \<open>What each segment returns, by the answers of the collaborators.\<close>

lemma snapshot_rejected:
  assumes "parserRejects c (nameSingular (metaOf ea)) (filterOf ea) = Some e"
  shows "snapshotStage c ea w = (Inl e, afterPrologue ea w)"
  using assms unfolding snapshotStage_def wrappers Let_def helpers worlds
  by simp

lemma snapshot_read:
  assumes "parserRejects c (nameSingular (metaOf ea)) (filterOf ea) = None"
  shows "snapshotStage c ea w =
     (case selectRows c (snapshotBuilder ea) (db w) of
        Inl e \<Rightarrow> (Inl e, afterSnapshot c ea w [])
      | Inr rowsE \<Rightarrow>
          if rowsE = [] then (Inl (GraphqlQueryRunnerException ''Records not found'' RECORD_NOT_FOUND), afterSnapshot c ea w [])
          else (Inr (length (builders w), existingAt w (length rowsE)), afterSnapshot c ea w rowsE))"
  using assms unfolding snapshotStage_def wrappers Let_def helpers worlds
  by (simp add: upd_app2 nth_app2 split: sum.splits)

lemma mutation_rejected:
  assumes "parserRejects c (tableNameOf c ea) (filterOf ea) = Some e"
  shows "mutationStage c ea (length (builders w)) (afterSnapshot c ea w rowsE) = (Inl e, afterRejection c ea w rowsE)"
  using assms unfolding mutationStage_def wrappers Let_def helpers worlds
  by simp

lemma mutation_write:
  assumes "parserRejects c (tableNameOf c ea) (filterOf ea) = None"
  shows "mutationStage c ea (length (builders w)) (afterSnapshot c ea w rowsE) =
     (case updateRows c (mutationBuilder c ea) (storageData c ea) (db w) of
        Inl e \<Rightarrow> (Inl e, afterFailedWrite c ea w rowsE)
      | Inr (rowsU, db') \<Rightarrow>
          (Inr (updatedAt w (length rowsE) (length rowsU)), afterMutation c ea w rowsE rowsU db'))"
  using assms unfolding mutationStage_def wrappers Let_def helpers worlds
  by (simp add: upd_app1 split: sum.splits prod.splits)

lemma emission:
  "emissionStage c ea (existingAt w (length rowsE)) (updatedAt w (length rowsE) (length rowsU))
       (afterMutation c ea w rowsE rowsU db') =
     (case emitterThrows c (emittedPayload c ea w (length rowsE) (length rowsU))
             (heapAtEmission c ea w rowsE rowsU) of
        Some e \<Rightarrow> (Inl e, afterEmission c ea w rowsE rowsU db')
      | None \<Rightarrow> (Inr (), afterEmission c ea w rowsE rowsU db'))"
  unfolding emissionStage_def wrappers Let_def helpers worlds
  by (simp add: clone_first clone_second add.assoc split: option.splits)

lemma hydration_skipped:
  assumes "\<not> truthy_opt (relations (graphqlQuerySelectedFieldsResult ea))"
  shows "hydrationStage c ea fE fU w = (Inr (), w)"
  using assms unfolding hydrationStage_def truthy_opt_def
  by (simp split: option.splits)

lemma hydration:
  assumes "relations (graphqlQuerySelectedFieldsResult ea) = Some rel" and "truthy rel"
  shows "hydrationStage c ea (existingAt w (length rowsE)) (updatedAt w (length rowsE) (length rowsU))
       (afterEmission c ea w rowsE rowsU db') =
     (case hydrate c (hydrationArgs c ea w (length rowsE) (length rowsU) rel) db'
             (formatted c ea rowsE @ formatted c ea rowsU) of
        Inl e \<Rightarrow> (Inl e, afterFailedHydration c ea w rowsE rowsU db' rel)
      | Inr f \<Rightarrow> (Inr (), afterHydration c ea w rowsE rowsU db' rel f))"
  using assms unfolding hydrationStage_def wrappers Let_def helpers worlds
  by (simp add: clone_first clone_second hydrate_first hydrate_second add.assoc split: sum.splits)

lemma shaping_unhydrated:
  "shapingStage c ea (updatedAt w (length rowsE) (length rowsU)) (afterEmission c ea w rowsE rowsU db')
     = map (\<lambda>r. processRecord c (objectMetadataMaps (options ea)) r (nameSingular (metaOf ea)) 1 1)
         (formatted c ea rowsU)"
  using shape_second [where g = "\<lambda>r. processRecord c (objectMetadataMaps (options ea)) r (nameSingular (metaOf ea)) 1 1"
      and H = "heap w" and fE = "formatted c ea rowsE" and fU = "formatted c ea rowsU"
      and Z = "formatted c ea rowsE @ formatted c ea rowsU" and nE = "length rowsE" and nU = "length rowsU"]
  unfolding shapingStage_def helpers worlds
  by (simp add: add.assoc)

lemma shaping_hydrated:
  "shapingStage c ea (updatedAt w (length rowsE) (length rowsU)) (afterHydration c ea w rowsE rowsU db' rel f)
     = map (\<lambda>r. processRecord c (objectMetadataMaps (options ea)) (f r) (nameSingular (metaOf ea)) 1 1)
         (formatted c ea rowsU)"
  using shape_second [where g = "\<lambda>r. processRecord c (objectMetadataMaps (options ea)) r (nameSingular (metaOf ea)) 1 1"
      and H = "heap w" and fE = "map f (formatted c ea rowsE)" and fU = "map f (formatted c ea rowsU)"
      and Z = "formatted c ea rowsE @ formatted c ea rowsU" and nE = "length rowsE" and nU = "length rowsU"]
  unfolding shapingStage_def helpers worlds
  by (simp add: add.assoc comp_def)

section \<open>The nine runs of the batch update\<close>

text \<open>
  A run ends at the first collaborator that fails, or with the shaped result. Each lemma
  gives the result and the final world of one way through \<open>resolve\<close>, and
  \<open>resolve_cases\<close> says that there is no other.
\<close>

lemma path_filter_rejected:
  assumes "parserRejects c (nameSingular (metaOf ea)) (filterOf ea) = Some e"
  shows "resolve c ea w = (Inl e, afterPrologue ea w)"
  by (simp add: resolve_stages snapshot_rejected [OF assms])

lemma path_read_failed:
  assumes "parserRejects c (nameSingular (metaOf ea)) (filterOf ea) = None"
    and "selectRows c (snapshotBuilder ea) (db w) = Inl e"
  shows "resolve c ea w = (Inl e, afterSnapshot c ea w [])"
  by (simp add: resolve_stages snapshot_read [OF assms(1)] assms(2))

lemma path_not_found:
  assumes "parserRejects c (nameSingular (metaOf ea)) (filterOf ea) = None"
    and "selectRows c (snapshotBuilder ea) (db w) = Inr []"
  shows "resolve c ea w = (Inl notFound, afterSnapshot c ea w [])"
  by (simp add: resolve_stages snapshot_read [OF assms(1)] assms(2))

lemma path_mutation_rejected:
  assumes "parserRejects c (nameSingular (metaOf ea)) (filterOf ea) = None"
    and "selectRows c (snapshotBuilder ea) (db w) = Inr rowsE" and "rowsE \<noteq> []"
    and "parserRejects c (tableNameOf c ea) (filterOf ea) = Some e"
  shows "resolve c ea w = (Inl e, afterRejection c ea w rowsE)"
  by (simp add: resolve_stages snapshot_read [OF assms(1)] assms(2,3) mutation_rejected [OF assms(4)])

lemma path_write_failed:
  assumes "parserRejects c (nameSingular (metaOf ea)) (filterOf ea) = None"
    and "selectRows c (snapshotBuilder ea) (db w) = Inr rowsE" and "rowsE \<noteq> []"
    and "parserRejects c (tableNameOf c ea) (filterOf ea) = None"
    and "updateRows c (mutationBuilder c ea) (storageData c ea) (db w) = Inl e"
  shows "resolve c ea w = (Inl e, afterFailedWrite c ea w rowsE)"
  by (simp add: resolve_stages snapshot_read [OF assms(1)] assms(2,3,5) mutation_write [OF assms(4)])

lemma path_emitter_threw:
  assumes "parserRejects c (nameSingular (metaOf ea)) (filterOf ea) = None"
    and "selectRows c (snapshotBuilder ea) (db w) = Inr rowsE" and "rowsE \<noteq> []"
    and "parserRejects c (tableNameOf c ea) (filterOf ea) = None"
    and "updateRows c (mutationBuilder c ea) (storageData c ea) (db w) = Inr (rowsU, db')"
    and "emitterThrows c (emittedPayload c ea w (length rowsE) (length rowsU))
           (heapAtEmission c ea w rowsE rowsU) = Some e"
  shows "resolve c ea w = (Inl e, afterEmission c ea w rowsE rowsU db')"
  by (simp add: resolve_stages snapshot_read [OF assms(1)] assms(2,3,5,6) mutation_write [OF assms(4)]
        emission)

lemma path_unhydrated:
  assumes "parserRejects c (nameSingular (metaOf ea)) (filterOf ea) = None"
    and "selectRows c (snapshotBuilder ea) (db w) = Inr rowsE" and "rowsE \<noteq> []"
    and "parserRejects c (tableNameOf c ea) (filterOf ea) = None"
    and "updateRows c (mutationBuilder c ea) (storageData c ea) (db w) = Inr (rowsU, db')"
    and "emitterThrows c (emittedPayload c ea w (length rowsE) (length rowsU))
           (heapAtEmission c ea w rowsE rowsU) = None"
    and "\<not> truthy_opt (relations (graphqlQuerySelectedFieldsResult ea))"
  shows "resolve c ea w = (Inr (shaped c ea (formatted c ea rowsU)), afterEmission c ea w rowsE rowsU db')"
  by (simp add: resolve_stages snapshot_read [OF assms(1)] assms(2,3,5,6) mutation_write [OF assms(4)]
        emission hydration_skipped [OF assms(7)] shaping_unhydrated shaped_def)

lemma path_hydrator_threw:
  assumes "parserRejects c (nameSingular (metaOf ea)) (filterOf ea) = None"
    and "selectRows c (snapshotBuilder ea) (db w) = Inr rowsE" and "rowsE \<noteq> []"
    and "parserRejects c (tableNameOf c ea) (filterOf ea) = None"
    and "updateRows c (mutationBuilder c ea) (storageData c ea) (db w) = Inr (rowsU, db')"
    and "emitterThrows c (emittedPayload c ea w (length rowsE) (length rowsU))
           (heapAtEmission c ea w rowsE rowsU) = None"
    and "relations (graphqlQuerySelectedFieldsResult ea) = Some rel" and "truthy rel"
    and "hydrate c (hydrationArgs c ea w (length rowsE) (length rowsU) rel) db'
           (formatted c ea rowsE @ formatted c ea rowsU) = Inl e"
  shows "resolve c ea w = (Inl e, afterFailedHydration c ea w rowsE rowsU db' rel)"
  by (simp add: resolve_stages snapshot_read [OF assms(1)] assms(2,3,5,6,9) mutation_write [OF assms(4)]
        emission hydration [OF assms(7,8)])

lemma path_hydrated:
  assumes "parserRejects c (nameSingular (metaOf ea)) (filterOf ea) = None"
    and "selectRows c (snapshotBuilder ea) (db w) = Inr rowsE" and "rowsE \<noteq> []"
    and "parserRejects c (tableNameOf c ea) (filterOf ea) = None"
    and "updateRows c (mutationBuilder c ea) (storageData c ea) (db w) = Inr (rowsU, db')"
    and "emitterThrows c (emittedPayload c ea w (length rowsE) (length rowsU))
           (heapAtEmission c ea w rowsE rowsU) = None"
    and "relations (graphqlQuerySelectedFieldsResult ea) = Some rel" and "truthy rel"
    and "hydrate c (hydrationArgs c ea w (length rowsE) (length rowsU) rel) db'
           (formatted c ea rowsE @ formatted c ea rowsU) = Inr f"
  shows "resolve c ea w = (Inr (shaped c ea (map f (formatted c ea rowsU))),
                            afterHydration c ea w rowsE rowsU db' rel f)"
  by (simp add: resolve_stages snapshot_read [OF assms(1)] assms(2,3,5,6,9) mutation_write [OF assms(4)]
        emission hydration [OF assms(7,8)] shaping_hydrated shaped_def comp_def)

lemma resolve_cases [case_names filter_rejected read_failed not_found mutation_rejected
    write_failed emitter_threw unhydrated hydrator_threw hydrated]:
  obtains
    e where "parserRejects c (nameSingular (metaOf ea)) (filterOf ea) = Some e"
      and "resolve c ea w = (Inl e, afterPrologue ea w)"
  | e where "parserRejects c (nameSingular (metaOf ea)) (filterOf ea) = None"
      and "selectRows c (snapshotBuilder ea) (db w) = Inl e"
      and "resolve c ea w = (Inl e, afterSnapshot c ea w [])"
  | "parserRejects c (nameSingular (metaOf ea)) (filterOf ea) = None"
      and "selectRows c (snapshotBuilder ea) (db w) = Inr []"
      and "resolve c ea w = (Inl notFound, afterSnapshot c ea w [])"
  | rowsE e where "parserRejects c (nameSingular (metaOf ea)) (filterOf ea) = None"
      and "selectRows c (snapshotBuilder ea) (db w) = Inr rowsE" and "rowsE \<noteq> []"
      and "parserRejects c (tableNameOf c ea) (filterOf ea) = Some e"
      and "resolve c ea w = (Inl e, afterRejection c ea w rowsE)"
  | rowsE e where "parserRejects c (nameSingular (metaOf ea)) (filterOf ea) = None"
      and "selectRows c (snapshotBuilder ea) (db w) = Inr rowsE" and "rowsE \<noteq> []"
      and "parserRejects c (tableNameOf c ea) (filterOf ea) = None"
      and "updateRows c (mutationBuilder c ea) (storageData c ea) (db w) = Inl e"
      and "resolve c ea w = (Inl e, afterFailedWrite c ea w rowsE)"
  | rowsE rowsU db' e where "parserRejects c (nameSingular (metaOf ea)) (filterOf ea) = None"
      and "selectRows c (snapshotBuilder ea) (db w) = Inr rowsE" and "rowsE \<noteq> []"
      and "parserRejects c (tableNameOf c ea) (filterOf ea) = None"
      and "updateRows c (mutationBuilder c ea) (storageData c ea) (db w) = Inr (rowsU, db')"
      and "emitterThrows c (emittedPayload c ea w (length rowsE) (length rowsU))
             (heapAtEmission c ea w rowsE rowsU) = Some e"
      and "resolve c ea w = (Inl e, afterEmission c ea w rowsE rowsU db')"
  | rowsE rowsU db' where "parserRejects c (nameSingular (metaOf ea)) (filterOf ea) = None"
      and "selectRows c (snapshotBuilder ea) (db w) = Inr rowsE" and "rowsE \<noteq> []"
      and "parserRejects c (tableNameOf c ea) (filterOf ea) = None"
      and "updateRows c (mutationBuilder c ea) (storageData c ea) (db w) = Inr (rowsU, db')"
      and "emitterThrows c (emittedPayload c ea w (length rowsE) (length rowsU))
             (heapAtEmission c ea w rowsE rowsU) = None"
      and "\<not> truthy_opt (relations (graphqlQuerySelectedFieldsResult ea))"
      and "resolve c ea w = (Inr (shaped c ea (formatted c ea rowsU)), afterEmission c ea w rowsE rowsU db')"
  | rowsE rowsU db' rel e where "parserRejects c (nameSingular (metaOf ea)) (filterOf ea) = None"
      and "selectRows c (snapshotBuilder ea) (db w) = Inr rowsE" and "rowsE \<noteq> []"
      and "parserRejects c (tableNameOf c ea) (filterOf ea) = None"
      and "updateRows c (mutationBuilder c ea) (storageData c ea) (db w) = Inr (rowsU, db')"
      and "emitterThrows c (emittedPayload c ea w (length rowsE) (length rowsU))
             (heapAtEmission c ea w rowsE rowsU) = None"
      and "relations (graphqlQuerySelectedFieldsResult ea) = Some rel" and "truthy rel"
      and "hydrate c (hydrationArgs c ea w (length rowsE) (length rowsU) rel) db'
             (formatted c ea rowsE @ formatted c ea rowsU) = Inl e"
      and "resolve c ea w = (Inl e, afterFailedHydration c ea w rowsE rowsU db' rel)"
  | rowsE rowsU db' rel f where "parserRejects c (nameSingular (metaOf ea)) (filterOf ea) = None"
      and "selectRows c (snapshotBuilder ea) (db w) = Inr rowsE" and "rowsE \<noteq> []"
      and "parserRejects c (tableNameOf c ea) (filterOf ea) = None"
      and "updateRows c (mutationBuilder c ea) (storageData c ea) (db w) = Inr (rowsU, db')"
      and "emitterThrows c (emittedPayload c ea w (length rowsE) (length rowsU))
             (heapAtEmission c ea w rowsE rowsU) = None"
      and "relations (graphqlQuerySelectedFieldsResult ea) = Some rel" and "truthy rel"
      and "hydrate c (hydrationArgs c ea w (length rowsE) (length rowsU) rel) db'
             (formatted c ea rowsE @ formatted c ea rowsU) = Inr f"
      and "resolve c ea w = (Inr (shaped c ea (map f (formatted c ea rowsU))),
                              afterHydration c ea w rowsE rowsU db' rel f)"
proof (cases "parserRejects c (nameSingular (metaOf ea)) (filterOf ea)")
  case (Some e)
  show thesis by (rule that(1) [OF Some path_filter_rejected [OF Some]])
next
  case pr1: None
  show thesis
  proof (cases "selectRows c (snapshotBuilder ea) (db w)")
    case (Inl e)
    show thesis by (rule that(2) [OF pr1 Inl path_read_failed [OF pr1 Inl]])
  next
    case sel: (Inr rowsE)
    show thesis
    proof (cases "rowsE = []")
      case True
      with sel have sel0: "selectRows c (snapshotBuilder ea) (db w) = Inr []" by simp
      show thesis by (rule that(3) [OF pr1 sel0 path_not_found [OF pr1 sel0]])
    next
      case ne: False
      show thesis
      proof (cases "parserRejects c (tableNameOf c ea) (filterOf ea)")
        case (Some e)
        show thesis by (rule that(4) [OF pr1 sel ne Some path_mutation_rejected [OF pr1 sel ne Some]])
      next
        case pr2: None
        show thesis
        proof (cases "updateRows c (mutationBuilder c ea) (storageData c ea) (db w)")
          case (Inl e)
          show thesis by (rule that(5) [OF pr1 sel ne pr2 Inl path_write_failed [OF pr1 sel ne pr2 Inl]])
        next
          case (Inr res)
          then obtain rowsU db' where upd:
            "updateRows c (mutationBuilder c ea) (storageData c ea) (db w) = Inr (rowsU, db')"
            by (cases res) simp
          show thesis
          proof (cases "emitterThrows c (emittedPayload c ea w (length rowsE) (length rowsU))
                          (heapAtEmission c ea w rowsE rowsU)")
            case (Some e)
            show thesis by (rule that(6) [OF pr1 sel ne pr2 upd Some path_emitter_threw [OF pr1 sel ne pr2 upd Some]])
          next
            case em: None
            show thesis
            proof (cases "truthy_opt (relations (graphqlQuerySelectedFieldsResult ea))")
              case False
              show thesis
                by (rule that(7) [OF pr1 sel ne pr2 upd em False path_unhydrated [OF pr1 sel ne pr2 upd em False]])
            next
              case True
              then obtain rel where rel: "relations (graphqlQuerySelectedFieldsResult ea) = Some rel"
                and tr: "truthy rel"
                by (auto simp: truthy_opt_def split: option.splits)
              show thesis
              proof (cases "hydrate c (hydrationArgs c ea w (length rowsE) (length rowsU) rel) db'
                              (formatted c ea rowsE @ formatted c ea rowsU)")
                case (Inl e)
                show thesis
                  by (rule that(8) [OF pr1 sel ne pr2 upd em rel tr Inl
                        path_hydrator_threw [OF pr1 sel ne pr2 upd em rel tr Inl]])
              next
                case (Inr f)
                show thesis
                  by (rule that(9) [OF pr1 sel ne pr2 upd em rel tr Inr
                        path_hydrated [OF pr1 sel ne pr2 upd em rel tr Inr]])
              qed
            qed
          qed
        qed
      qed
    qed
  qed
qed

lemmas run_simps = newEvents_def worlds helpers

lemma success_trace:
  assumes "resolve c ea w = (Inr out, w')"
  shows "\<exists>p post.
           newEvents w w' = (snapshotEvents ea w @ mutationEvents c ea w) @ EvEmitUpdateEvents p # post
           \<and> (post = [] \<or> (\<exists>a. post = [EvProcessNestedRelations a]))"
  using assms
  by (cases rule: resolve_cases [of c ea w]) (auto simp: newEvents_def worlds)

lemma emit_at_most_once:
  assumes "resolve c ea w = (r, w')"
  shows "length (filter isEmit (newEvents w w')) \<le> 1"
  using assms
  by (cases rule: resolve_cases [of c ea w]) (auto simp: run_simps)

lemma no_emit_when_snapshot_fails:
  assumes "resolve c ea w = (r, w')" and "snapshotFails c ea w"
  shows "filter isEmit (newEvents w w') = []"
  using assms
  by (cases rule: resolve_cases [of c ea w]) (auto simp: run_simps snapshotFails_def)

lemma no_emit_when_mutation_fails:
  assumes "resolve c ea w = (r, w')" and "mutationFails c ea w"
  shows "filter isEmit (newEvents w w') = []"
  using assms
  by (cases rule: resolve_cases [of c ea w]) (auto simp: run_simps mutationFails_def)

lemma payload_existing:
  assumes "length A = length rowsE" and "length B = length rowsU"
  shows "map (\<lambda>a. (heap w @ A @ B @ formatted c ea rowsE @ formatted c ea rowsU) ! a)
           (ev_existingRecords (emittedPayload c ea w (length rowsE) (length rowsU)))
         = formatted c ea rowsE"
  using clone_second [where H = "heap w" and fE = "A @ B" and fU = "formatted c ea rowsE"
      and Z = "formatted c ea rowsU" and nE = "length rowsE + length rowsU" and nU = "length rowsE"] assms
  by (simp add: helpers add.assoc)

lemma payload_records:
  assumes "length A = length rowsE" and "length B = length rowsU"
  shows "map (\<lambda>a. (heap w @ A @ B @ formatted c ea rowsE @ formatted c ea rowsU) ! a)
           (ev_records (emittedPayload c ea w (length rowsE) (length rowsU)))
         = formatted c ea rowsU"
  using clone_second [where H = "heap w" and fE = "A @ B @ formatted c ea rowsE" and fU = "formatted c ea rowsU"
      and Z = "[]" and nE = "length rowsE + length rowsU + length rowsE" and nU = "length rowsU"] assms
  by (simp add: helpers add.assoc)

lemma payload_addresses:
  "set (ev_existingRecords (emittedPayload c ea w nE nU)) \<union> set (ev_records (emittedPayload c ea w nE nU))
     = {length (heap w) + nE + nU ..< length (heap w) + nE + nU + nE + nU}"
  by (auto simp: emittedPayload_def)

lemma parent_addresses:
  "set (nr_parentObjectRecords (hydrationArgs c ea w nE nU rel)) = {length (heap w) ..< length (heap w) + nE + nU}"
  by (auto simp: hydrationArgs_def existingAt_def updatedAt_def)

lemma forEach_assert:
  "forEach (\<lambda>v. assertIsValidUuid P v) xs =
     (case find (\<lambda>v. \<not> P v) xs of None \<Rightarrow> Inr () | Some v \<Rightarrow> Inl (InvalidIdentifier v))"
  by (induction xs) (simp_all add: assertIsValidUuid_def)

section \<open>The worked instance, run\<close>

lemmas instance_defs = tableStore_def call_def updateTwo_def taskMeta_def tasks_def task_def idIn_def
  idsOf_def hits_def patch_def idA_def idB_def idC_def companySelection_def remoteMeta_def

lemma run_unhydrated:
  "resolve tableStore (updateTwo None) tasks =
     (Inr (shaped tableStore (updateTwo None) [task idA ''done'', task idB ''done'']),
      afterEmission tableStore (updateTwo None) tasks
        [task idA ''open'', task idB ''done''] [task idA ''done'', task idB ''done'']
        [task idA ''done'', task idB ''done'', task idC ''open''])"
proof -
  have "resolve tableStore (updateTwo None) tasks =
     (Inr (shaped tableStore (updateTwo None)
             (formatted tableStore (updateTwo None) [task idA ''done'', task idB ''done''])),
      afterEmission tableStore (updateTwo None) tasks
        [task idA ''open'', task idB ''done''] [task idA ''done'', task idB ''done'']
        [task idA ''done'', task idB ''done'', task idC ''open''])"
    by (rule path_unhydrated) (simp_all add: instance_defs helpers truthy_opt_def)
  then show ?thesis
    by (simp add: formatted_def tableStore_def)
qed

lemma run_hydrated:
  "resolve tableStore (updateTwo (Some companySelection)) tasks =
     (Inr (shaped tableStore (updateTwo (Some companySelection))
             [task idA ''done'' @ [(''company'', companySelection)],
              task idB ''done'' @ [(''company'', companySelection)]]),
      afterHydration tableStore (updateTwo (Some companySelection)) tasks
        [task idA ''open'', task idB ''done''] [task idA ''done'', task idB ''done'']
        [task idA ''done'', task idB ''done'', task idC ''open''] companySelection
        (\<lambda>r. r @ [(''company'', companySelection)]))"
proof -
  have "resolve tableStore (updateTwo (Some companySelection)) tasks =
     (Inr (shaped tableStore (updateTwo (Some companySelection))
             (map (\<lambda>r. r @ [(''company'', companySelection)])
                (formatted tableStore (updateTwo (Some companySelection)) [task idA ''done'', task idB ''done'']))),
      afterHydration tableStore (updateTwo (Some companySelection)) tasks
        [task idA ''open'', task idB ''done''] [task idA ''done'', task idB ''done'']
        [task idA ''done'', task idB ''done'', task idC ''open''] companySelection
        (\<lambda>r. r @ [(''company'', companySelection)]))"
    by (rule path_hydrated) (simp_all add: instance_defs helpers truthy_opt_def)
  then show ?thesis
    by (simp add: formatted_def tableStore_def)
qed

lemma run_not_found:
  "resolve tableStore (call taskMeta (Some (idIn [])) None) tasks =
     (Inl notFound, afterSnapshot tableStore (call taskMeta (Some (idIn [])) None) tasks [])"
  by (rule path_not_found) (simp_all add: instance_defs helpers)

lemma validate_updateTwo:
  "validate uuidSyntax (args (updateTwo rel)) (options (updateTwo rel)) = Inr ()"
  by (simp add: validate_def assertMutationNotOnRemoteObject_def truthy_opt_def assertIsValidUuid_def
      uuidSyntax_def instance_defs)

lemma select_updateTwo:
  "selectRows tableStore
     \<lparr>qb_alias = nameSingular (metaOf (updateTwo rel)),
        qb_filters = [(nameSingular (metaOf (updateTwo rel)), filterOf (updateTwo rel))]\<rparr> (db tasks)
     = Inr [task idA ''open'', task idB ''done'']"
  by (simp add: instance_defs)

lemma update_updateTwo:
  "updateRows tableStore
     \<lparr>qb_alias = nameSingular (metaOf (updateTwo rel)),
        qb_filters = [(computeTableName tableStore (nameSingular (metaOf (updateTwo rel)))
                         (isCustom (metaOf (updateTwo rel))), filterOf (updateTwo rel))]\<rparr>
     (formatData tableStore (data (args (updateTwo rel))) (metaOf (updateTwo rel))) (db tasks)
     = Inr ([task idA ''done'', task idB ''done''],
            [task idA ''done'', task idB ''done'', task idC ''open''])"
  by (simp add: instance_defs)

lemma run_empty_selection:
  "resolve tableStore (updateTwo (Some emptySelection)) tasks =
     (Inr (shaped tableStore (updateTwo (Some emptySelection))
             [task idA ''done'' @ [(''company'', emptySelection)],
              task idB ''done'' @ [(''company'', emptySelection)]]),
      afterHydration tableStore (updateTwo (Some emptySelection)) tasks
        [task idA ''open'', task idB ''done''] [task idA ''done'', task idB ''done'']
        [task idA ''done'', task idB ''done'', task idC ''open''] emptySelection
        (\<lambda>r. r @ [(''company'', emptySelection)]))"
proof -
  have "resolve tableStore (updateTwo (Some emptySelection)) tasks =
     (Inr (shaped tableStore (updateTwo (Some emptySelection))
             (map (\<lambda>r. r @ [(''company'', emptySelection)])
                (formatted tableStore (updateTwo (Some emptySelection)) [task idA ''done'', task idB ''done'']))),
      afterHydration tableStore (updateTwo (Some emptySelection)) tasks
        [task idA ''open'', task idB ''done''] [task idA ''done'', task idB ''done'']
        [task idA ''done'', task idB ''done'', task idC ''open''] emptySelection
        (\<lambda>r. r @ [(''company'', emptySelection)]))"
    by (rule path_hydrated) (simp_all add: instance_defs helpers truthy_opt_def emptySelection_def)
  then show ?thesis
    by (simp add: formatted_def tableStore_def)
qed




lemma requests_truthy:
  "requestsRelations rel \<Longrightarrow> truthy_opt rel"
  by (auto simp: requestsRelations_def truthy_opt_def split: option.splits json.splits)

section \<open>The claims\<close>

subsection \<open>C1\<close>





subsection \<open>C2\<close>

text \<open>
  Claim C2. When the filter is accepted by the translation and the snapshot read returns no
  row, the call fails with \<open>RECORD_NOT_FOUND\<close>; the run has issued exactly one read, on the
  cloned builder, and no write, and the storage state is unchanged.
\<close>

theorem no_match_fails_without_write:
  assumes "parserRejects c (nameSingular (metaOf ea)) (filterOf ea) = None"
    and "selectRows c \<lparr>qb_alias = nameSingular (metaOf ea),
                       qb_filters = [(nameSingular (metaOf ea), filterOf ea)]\<rparr> (db w) = Inr []"
  shows "\<exists>w'. resolve c ea w = (Inl (GraphqlQueryRunnerException ''Records not found'' RECORD_NOT_FOUND), w')
           \<and> filter isRead (newEvents w w') = [EvGetMany (Suc (length (builders w)))]
           \<and> filter isWrite (newEvents w w') = []
           \<and> db w' = db w"
  using path_not_found [of c ea w] assms
  by (simp add: run_simps)

text \<open>The theorem at work on the table of tasks.\<close>

theorem no_match_fails_without_write_witness:
  "\<exists>w'. resolve tableStore (call taskMeta (Some (idIn [])) None) tasks
            = (Inl (GraphqlQueryRunnerException ''Records not found'' RECORD_NOT_FOUND), w')
     \<and> filter isRead (newEvents tasks w') = [EvGetMany 1]
     \<and> filter isWrite (newEvents tasks w') = []
     \<and> db w' = db tasks"
  using no_match_fails_without_write [of tableStore "call taskMeta (Some (idIn [])) None" tasks]
  by (simp add: instance_defs)

subsection \<open>C3\<close>

text \<open>
  Claim C3, as amended. When no filter is supplied (the filter is \<^verbatim>\<open>undefined\<close>, or falsy),
  validation fails and the call ends in the world it started in, with no call on any
  collaborator: with \<^verbatim>\<open>Error('Filter is required')\<close> when the target is not remote, and
  with the earlier \<open>MutationNotAllowed\<close> when it is.
\<close>

theorem missing_filter_fails_validation:
  assumes "\<not> truthy_opt (filter' (args ea))"
  shows "validate (isValidUuid c) (args ea) (options ea) =
           Inl (if isRemote (metaOf ea) then MutationNotAllowed else Error ''Filter is required'')
       \<and> execute c ea w =
           (Inl (if isRemote (metaOf ea) then MutationNotAllowed else Error ''Filter is required''), w)"
  using assms
  by (simp add: execute_def validate_def assertMutationNotOnRemoteObject_def)

text \<open>The theorem at work on the table of tasks.\<close>

theorem missing_filter_fails_validation_witness:
  "execute tableStore (call taskMeta None None) tasks = (Inl (Error ''Filter is required''), tasks)"
  using missing_filter_fails_validation [of "call taskMeta None None" tableStore tasks]
  by (simp add: truthy_opt_def call_def taskMeta_def)

text \<open>
  The claim as stated fails on a remote target: the check of line 137 comes first, and the
  call without a filter does not fail with ``Filter is required''.
\<close>

theorem missing_filter_on_remote_target:
  "filter' (args (call remoteMeta None None)) = None
     \<and> execute tableStore (call remoteMeta None None) tasks = (Inl MutationNotAllowed, tasks)
     \<and> MutationNotAllowed \<noteq> Error ''Filter is required''"
  by (simp add: execute_def validate_def assertMutationNotOnRemoteObject_def call_def remoteMeta_def
      taskMeta_def)

subsection \<open>C4\<close>

text \<open>
  Claim C4, as amended. On a target that is not remote, with a filter object whose top-level
  \<^verbatim>\<open>id\<close> clause has an \<^verbatim>\<open>in\<close> array: if every value of the array is a valid
  identifier, validation succeeds; otherwise validation fails with \<open>InvalidIdentifier\<close> on
  the first invalid value, and the call ends in the world it started in.
\<close>

theorem top_level_identifiers_validated:
  assumes "\<not> isRemote (metaOf ea)"
    and "filter' (args ea) = Some (JObj kvs)"
    and "map_of kvs ''id'' = Some (JObj ops)"
    and "map_of ops ''in'' = Some (JArr ids)"
  shows "((\<forall>v \<in> set ids. isValidUuid c v) \<longrightarrow>
            validate (isValidUuid c) (args ea) (options ea) = Inr ())
       \<and> (\<not> (\<forall>v \<in> set ids. isValidUuid c v) \<longrightarrow>
            (\<exists>v \<in> set ids. \<not> isValidUuid c v
               \<and> find (\<lambda>v. \<not> isValidUuid c v) ids = Some v
               \<and> validate (isValidUuid c) (args ea) (options ea) = Inl (InvalidIdentifier v)
               \<and> execute c ea w = (Inl (InvalidIdentifier v), w)))"
proof -
  have v: "validate (isValidUuid c) (args ea) (options ea) =
      (case find (\<lambda>v. \<not> isValidUuid c v) ids of None \<Rightarrow> Inr () | Some v \<Rightarrow> Inl (InvalidIdentifier v))"
    using assms
    by (simp add: validate_def assertMutationNotOnRemoteObject_def truthy_opt_def forEach_assert)
  show ?thesis
  proof (cases "find (\<lambda>v. \<not> isValidUuid c v) ids")
    case None
    then have "\<forall>v \<in> set ids. isValidUuid c v"
      by (auto simp: find_None_iff)
    then show ?thesis
      using v None by simp
  next
    case (Some v)
    then have "v \<in> set ids" and "\<not> isValidUuid c v"
      by (auto simp: find_Some_iff)
    then show ?thesis
      using v Some by (auto simp: execute_def)
  qed
qed

text \<open>The theorem at work on the table of tasks.\<close>

theorem top_level_identifiers_validated_witness:
  "execute tableStore (call taskMeta (Some (idIn [idA, JStr ''not-a-uuid''])) None) tasks
       = (Inl (InvalidIdentifier (JStr ''not-a-uuid'')), tasks)
     \<and> validate uuidSyntax (args (updateTwo None)) (options (updateTwo None)) = Inr ()"
proof -
  have valid: "uuidSyntax idA" "uuidSyntax idB" and invalid: "\<not> uuidSyntax (JStr ''not-a-uuid'')"
    by (simp_all add: uuidSyntax_def idA_def idB_def)
  have "\<exists>v \<in> set [idA, JStr ''not-a-uuid''].
          \<not> isValidUuid tableStore v
          \<and> find (\<lambda>v. \<not> isValidUuid tableStore v) [idA, JStr ''not-a-uuid''] = Some v
          \<and> validate (isValidUuid tableStore) (args (call taskMeta (Some (idIn [idA, JStr ''not-a-uuid''])) None))
               (options (call taskMeta (Some (idIn [idA, JStr ''not-a-uuid''])) None)) = Inl (InvalidIdentifier v)
          \<and> execute tableStore (call taskMeta (Some (idIn [idA, JStr ''not-a-uuid''])) None) tasks
               = (Inl (InvalidIdentifier v), tasks)"
    using top_level_identifiers_validated [of "call taskMeta (Some (idIn [idA, JStr ''not-a-uuid''])) None"
        "[(''id'', JObj [(''in'', JArr [idA, JStr ''not-a-uuid''])])]"
        "[(''in'', JArr [idA, JStr ''not-a-uuid''])]" "[idA, JStr ''not-a-uuid'']" tableStore tasks]
      invalid
    by (simp add: call_def taskMeta_def idIn_def tableStore_def)
  then have first: "execute tableStore (call taskMeta (Some (idIn [idA, JStr ''not-a-uuid''])) None) tasks
       = (Inl (InvalidIdentifier (JStr ''not-a-uuid'')), tasks)"
    using valid invalid by (auto simp: tableStore_def)
  have "validate (isValidUuid tableStore) (args (updateTwo None)) (options (updateTwo None)) = Inr ()"
    using top_level_identifiers_validated [of "updateTwo None" "[(''id'', JObj [(''in'', JArr [idA, idB])])]"
        "[(''in'', JArr [idA, idB])]" "[idA, idB]" tableStore tasks] valid
    by (simp add: updateTwo_def call_def taskMeta_def idIn_def tableStore_def)
  with first show ?thesis
    by (simp add: tableStore_def)
qed

text \<open>
  The claim as stated fails for an ``id is one of'' clause under a conjunction: its invalid
  identifier is not looked at, and validation succeeds.
\<close>

theorem nested_identifier_not_validated:
  "JStr ''not-a-uuid'' \<in> set (idInValues nestedFilter)
     \<and> \<not> uuidSyntax (JStr ''not-a-uuid'')
     \<and> validate uuidSyntax (args (call taskMeta (Some nestedFilter) None))
          (options (call taskMeta (Some nestedFilter) None)) = Inr ()"
  by (simp add: nestedFilter_def idIn_def uuidSyntax_def validate_def assertMutationNotOnRemoteObject_def
      truthy_opt_def call_def taskMeta_def)

subsection \<open>C5\<close>

text \<open>
  Claim C5. A successful run has emitted exactly one change event, and its
  \<^verbatim>\<open>updatedFields\<close> are the keys of the caller's payload \<^verbatim>\<open>args.data\<close>, whatever the
  storage layer returned and whatever \<^verbatim>\<open>formatData\<close> made of the payload.
\<close>

theorem updatedFields_are_payload_keys:
  assumes "resolve c ea w = (Inr out, w')"
  shows "\<exists>p. filter isEmit (newEvents w w') = [EvEmitUpdateEvents p]
           \<and> ev_updatedFields p = Object_keys (data (args ea))"
  using assms
  by (cases rule: resolve_cases [of c ea w]) (auto simp: run_simps)

text \<open>The theorem at work on the table of tasks.\<close>

theorem updatedFields_are_payload_keys_witness:
  "\<exists>out w' p. resolve tableStore (updateTwo None) tasks = (Inr out, w')
     \<and> filter isEmit (newEvents tasks w') = [EvEmitUpdateEvents p]
     \<and> ev_updatedFields p = [''status'']
     \<and> task idB ''done'' \<in> set (db tasks) \<and> task idB ''done'' \<in> set (db w')"
proof -
  obtain out w' where run: "resolve tableStore (updateTwo None) tasks = (Inr out, w')"
    and w': "w' = afterEmission tableStore (updateTwo None) tasks
        [task idA ''open'', task idB ''done''] [task idA ''done'', task idB ''done'']
        [task idA ''done'', task idB ''done'', task idC ''open'']"
    using run_unhydrated by simp
  from updatedFields_are_payload_keys [OF run] obtain p where "filter isEmit (newEvents tasks w') = [EvEmitUpdateEvents p]"
    and "ev_updatedFields p = Object_keys (data (args (updateTwo None)))"
    by blast
  moreover have "Object_keys (data (args (updateTwo None))) = [''status'']"
    by (simp add: Object_keys_def updateTwo_def call_def)
  moreover have "task idB ''done'' \<in> set (db tasks)" and "task idB ''done'' \<in> set (db w')"
    by (simp_all add: w' afterEmission_def tasks_def)
  ultimately show ?thesis
    using run by auto
qed

subsection \<open>C6\<close>

text \<open>
  Claim C6. In a successful run, the records handed to the emitter are objects of their own:
  their addresses are the last ones allocated, above every record handed to the hydrator, and
  at the end of the run they still hold the formatted rows of the read and of the write, that
  is, what the working records held when the event was emitted, whatever the hydrator has
  done to the working records since.
\<close>

theorem emitted_records_are_snapshots:
  assumes "resolve c ea w = (Inr out, w')"
  shows "\<exists>p rowsE rowsU db'.
           filter isEmit (newEvents w w') = [EvEmitUpdateEvents p]
         \<and> selectRows c \<lparr>qb_alias = nameSingular (metaOf ea),
               qb_filters = [(nameSingular (metaOf ea), filterOf ea)]\<rparr> (db w) = Inr rowsE
         \<and> updateRows c \<lparr>qb_alias = nameSingular (metaOf ea),
               qb_filters = [(computeTableName c (nameSingular (metaOf ea)) (isCustom (metaOf ea)), filterOf ea)]\<rparr>
               (formatData c (data (args ea)) (metaOf ea)) (db w) = Inr (rowsU, db')
         \<and> map (\<lambda>a. heap w' ! a) (ev_existingRecords p)
             = map (\<lambda>row. formatRow c row (metaOf ea) (objectMetadataMaps (options ea))) rowsE
         \<and> map (\<lambda>a. heap w' ! a) (ev_records p)
             = map (\<lambda>row. formatRow c row (metaOf ea) (objectMetadataMaps (options ea))) rowsU
         \<and> set (ev_existingRecords p) \<union> set (ev_records p)
             = {length (heap w) + length rowsE + length rowsU ..< length (heap w')}
         \<and> (\<forall>h. EvProcessNestedRelations h \<in> set (newEvents w w') \<longrightarrow>
               set (nr_parentObjectRecords h) = {length (heap w) ..< length (heap w) + length rowsE + length rowsU}
             \<and> set (nr_parentObjectRecords h) \<inter> (set (ev_existingRecords p) \<union> set (ev_records p)) = {})"
  using assms
proof (cases rule: resolve_cases [of c ea w])
  case (unhydrated rowsE rowsU db')
  with assms have w': "w' = afterEmission c ea w rowsE rowsU db'" by simp
  show ?thesis
    apply (rule exI [of _ "emittedPayload c ea w (length rowsE) (length rowsU)"])
    apply (rule exI [of _ rowsE])
    apply (rule exI [of _ rowsU])
    apply (rule exI [of _ db'])
    using unhydrated(2,5)
      payload_existing [of "formatted c ea rowsE" rowsE "formatted c ea rowsU" rowsU w c ea]
      payload_records [of "formatted c ea rowsE" rowsE "formatted c ea rowsU" rowsU w c ea]
      payload_addresses [of c ea w "length rowsE" "length rowsU"]
    apply (simp add: w' newEvents_def worlds)
    apply (simp add: helpers add.assoc)
    done
next
  case (hydrated rowsE rowsU db' rel f)
  with assms have w': "w' = afterHydration c ea w rowsE rowsU db' rel f" by simp
  show ?thesis
    apply (rule exI [of _ "emittedPayload c ea w (length rowsE) (length rowsU)"])
    apply (rule exI [of _ rowsE])
    apply (rule exI [of _ rowsU])
    apply (rule exI [of _ db'])
    using hydrated(2,5)
      payload_existing [of "map f (formatted c ea rowsE)" rowsE "map f (formatted c ea rowsU)" rowsU w c ea]
      payload_records [of "map f (formatted c ea rowsE)" rowsE "map f (formatted c ea rowsU)" rowsU w c ea]
      payload_addresses [of c ea w "length rowsE" "length rowsU"]
      parent_addresses [of c ea w "length rowsE" "length rowsU" rel]
    apply (simp add: w' newEvents_def worlds)
    apply (simp add: helpers add.assoc)
    done
qed simp_all

text \<open>The theorem at work on the table of tasks.\<close>

theorem emitted_records_are_snapshots_witness:
  "\<exists>out w' p. resolve tableStore (updateTwo (Some companySelection)) tasks = (Inr out, w')
     \<and> filter isEmit (newEvents tasks w') = [EvEmitUpdateEvents p]
     \<and> map (\<lambda>a. heap w' ! a) (ev_existingRecords p) = [task idA ''open'', task idB ''done'']
     \<and> map (\<lambda>a. heap w' ! a) (ev_records p) = [task idA ''done'', task idB ''done'']
     \<and> take 4 (heap w') =
          [task idA ''open'' @ [(''company'', companySelection)],
           task idB ''done'' @ [(''company'', companySelection)],
           task idA ''done'' @ [(''company'', companySelection)],
           task idB ''done'' @ [(''company'', companySelection)]]"
proof -
  obtain out w' where run: "resolve tableStore (updateTwo (Some companySelection)) tasks = (Inr out, w')"
    and w': "w' = afterHydration tableStore (updateTwo (Some companySelection)) tasks
        [task idA ''open'', task idB ''done''] [task idA ''done'', task idB ''done'']
        [task idA ''done'', task idB ''done'', task idC ''open''] companySelection
        (\<lambda>r. r @ [(''company'', companySelection)])"
    using run_hydrated by simp
  from emitted_records_are_snapshots [OF run] obtain p rowsE rowsU db' where
    em: "filter isEmit (newEvents tasks w') = [EvEmitUpdateEvents p]"
    and sel: "selectRows tableStore
       \<lparr>qb_alias = nameSingular (metaOf (updateTwo (Some companySelection))),
          qb_filters = [(nameSingular (metaOf (updateTwo (Some companySelection))),
                         filterOf (updateTwo (Some companySelection)))]\<rparr> (db tasks) = Inr rowsE"
    and upd: "updateRows tableStore
       \<lparr>qb_alias = nameSingular (metaOf (updateTwo (Some companySelection))),
          qb_filters = [(computeTableName tableStore (nameSingular (metaOf (updateTwo (Some companySelection))))
                           (isCustom (metaOf (updateTwo (Some companySelection)))),
                         filterOf (updateTwo (Some companySelection)))]\<rparr>
       (formatData tableStore (data (args (updateTwo (Some companySelection))))
          (metaOf (updateTwo (Some companySelection)))) (db tasks) = Inr (rowsU, db')"
    and ex: "map (\<lambda>a. heap w' ! a) (ev_existingRecords p)
               = map (\<lambda>row. formatRow tableStore row (metaOf (updateTwo (Some companySelection)))
                        (objectMetadataMaps (options (updateTwo (Some companySelection))))) rowsE"
    and up: "map (\<lambda>a. heap w' ! a) (ev_records p)
               = map (\<lambda>row. formatRow tableStore row (metaOf (updateTwo (Some companySelection)))
                        (objectMetadataMaps (options (updateTwo (Some companySelection))))) rowsU"
    by blast
  from sel have rowsE: "rowsE = [task idA ''open'', task idB ''done'']"
    by (simp add: select_updateTwo)
  from upd have rowsU: "rowsU = [task idA ''done'', task idB ''done'']"
    by (simp add: update_updateTwo)
  have snap: "map (\<lambda>a. heap w' ! a) (ev_existingRecords p) = [task idA ''open'', task idB ''done'']"
    "map (\<lambda>a. heap w' ! a) (ev_records p) = [task idA ''done'', task idB ''done'']"
    using ex up by (simp_all add: rowsE rowsU tableStore_def)
  have work: "take 4 (heap w') =
          [task idA ''open'' @ [(''company'', companySelection)],
           task idB ''done'' @ [(''company'', companySelection)],
           task idA ''done'' @ [(''company'', companySelection)],
           task idB ''done'' @ [(''company'', companySelection)]]"
    by (simp add: w' afterHydration_def formatted_def tableStore_def tasks_def)
  show ?thesis
    by (rule exI [of _ out], rule exI [of _ w'], rule exI [of _ p]) (simp add: run em snap work)
qed

subsection \<open>C7\<close>

text \<open>
  Claim C7. Over validation followed by the batch update: the emitter is invoked at most
  once; a successful call has invoked it exactly once, directly after the write and with
  nothing but the hydrator's call after it; and it is not invoked when validation fails
  (nothing is called then), when the snapshot fails (translation rejected, read failed, or
  no row), or when the mutation fails (translation rejected or write failed).
\<close>

theorem emitter_invoked_once_on_success:
  assumes "execute c ea w = (r, w')"
  shows "length (filter isEmit (newEvents w w')) \<le> 1
       \<and> (isl r \<or> (\<exists>pre p post. newEvents w w' = pre @ EvEmitUpdateEvents p # post
              \<and> pre \<noteq> [] \<and> isWrite (last pre) \<and> filter isEmit pre = [] \<and> filter isHydrate pre = []
              \<and> filter isEmit post = [] \<and> list_all isHydrate post))
       \<and> (isl (validate (isValidUuid c) (args ea) (options ea)) \<longrightarrow> newEvents w w' = [])
       \<and> (snapshotFails c ea w \<longrightarrow> filter isEmit (newEvents w w') = [])
       \<and> (mutationFails c ea w \<longrightarrow> filter isEmit (newEvents w w') = [])"
proof (cases "validate (isValidUuid c) (args ea) (options ea)")
  case (Inl e)
  with assms show ?thesis
    by (auto simp: execute_def newEvents_def)
next
  case (Inr u)
  with assms have run: "resolve c ea w = (r, w')"
    by (simp add: execute_def)
  have "isl r \<or> (\<exists>pre p post. newEvents w w' = pre @ EvEmitUpdateEvents p # post
              \<and> pre \<noteq> [] \<and> isWrite (last pre) \<and> filter isEmit pre = [] \<and> filter isHydrate pre = []
              \<and> filter isEmit post = [] \<and> list_all isHydrate post)"
  proof (cases r)
    case (Inr out)
    with run obtain p post where
      tr: "newEvents w w' = (snapshotEvents ea w @ mutationEvents c ea w) @ EvEmitUpdateEvents p # post"
      and post: "post = [] \<or> (\<exists>a. post = [EvProcessNestedRelations a])"
      using success_trace by blast
    have "snapshotEvents ea w @ mutationEvents c ea w \<noteq> []"
      and "isWrite (last (snapshotEvents ea w @ mutationEvents c ea w))"
      and "filter isEmit (snapshotEvents ea w @ mutationEvents c ea w) = []"
      and "filter isHydrate (snapshotEvents ea w @ mutationEvents c ea w) = []"
      by (simp_all add: helpers)
    moreover from post have "filter isEmit post = []" and "list_all isHydrate post"
      by auto
    ultimately show ?thesis
      using tr by blast
  qed simp
  with Inr emit_at_most_once [OF run] no_emit_when_snapshot_fails [OF run]
    no_emit_when_mutation_fails [OF run]
  show ?thesis by simp
qed

text \<open>The theorem at work on the table of tasks.\<close>

theorem emitter_invoked_once_on_success_witness:
  "(\<exists>out w' pre p post. execute tableStore (updateTwo None) tasks = (Inr out, w')
       \<and> newEvents tasks w' = pre @ EvEmitUpdateEvents p # post
       \<and> isWrite (last pre)
       \<and> length (filter isEmit (newEvents tasks w')) \<le> 1)
   \<and> (\<exists>e w'. execute tableStore (call taskMeta (Some (idIn [])) None) tasks = (Inl e, w')
       \<and> snapshotFails tableStore (call taskMeta (Some (idIn [])) None) tasks
       \<and> filter isEmit (newEvents tasks w') = [])
   \<and> (\<exists>e w'. execute tableStore (call taskMeta None None) tasks = (Inl e, w')
       \<and> newEvents tasks w' = [])"
proof -
  obtain out w1 where run1: "execute tableStore (updateTwo None) tasks = (Inr out, w1)"
    using run_unhydrated validate_updateTwo [of None]
    by (simp add: execute_def tableStore_def)
  from emitter_invoked_once_on_success [OF run1]
  have "\<exists>pre p post. newEvents tasks w1 = pre @ EvEmitUpdateEvents p # post \<and> isWrite (last pre)"
    and "length (filter isEmit (newEvents tasks w1)) \<le> 1"
    by auto
  with run1 have first: "\<exists>out w' pre p post. execute tableStore (updateTwo None) tasks = (Inr out, w')
       \<and> newEvents tasks w' = pre @ EvEmitUpdateEvents p # post
       \<and> isWrite (last pre)
       \<and> length (filter isEmit (newEvents tasks w')) \<le> 1"
    by blast
  obtain e2 w2 where run2: "execute tableStore (call taskMeta (Some (idIn [])) None) tasks = (Inl e2, w2)"
    using run_not_found
    by (simp add: execute_def validate_def assertMutationNotOnRemoteObject_def truthy_opt_def
        instance_defs)
  have fails: "snapshotFails tableStore (call taskMeta (Some (idIn [])) None) tasks"
    by (simp add: snapshotFails_def snapshotBuilder_def instance_defs)
  with emitter_invoked_once_on_success [OF run2]
  have "filter isEmit (newEvents tasks w2) = []"
    by simp
  with run2 fails have second: "\<exists>e w'. execute tableStore (call taskMeta (Some (idIn [])) None) tasks = (Inl e, w')
       \<and> snapshotFails tableStore (call taskMeta (Some (idIn [])) None) tasks
       \<and> filter isEmit (newEvents tasks w') = []"
    by blast
  obtain e3 w3 where run3: "execute tableStore (call taskMeta None None) tasks = (Inl e3, w3)"
    and v3: "isl (validate (isValidUuid tableStore) (args (call taskMeta None None)) (options (call taskMeta None None)))"
    by (simp add: execute_def validate_def assertMutationNotOnRemoteObject_def truthy_opt_def
        call_def taskMeta_def)
  with emitter_invoked_once_on_success [OF run3]
  have "newEvents tasks w3 = []"
    by simp
  with run3 have third: "\<exists>e w'. execute tableStore (call taskMeta None None) tasks = (Inl e, w')
       \<and> newEvents tasks w' = []"
    by blast
  from first second third show ?thesis
    by (intro conjI)
qed

subsection \<open>C8\<close>

lemma hydrator_calls:
  assumes "resolve c ea w = (r, w')"
  shows "(\<forall>a. EvProcessNestedRelations a \<in> set (newEvents w w') \<longrightarrow>
            (\<exists>rel rowsE rowsU db'.
               relations (graphqlQuerySelectedFieldsResult ea) = Some rel \<and> truthy rel
             \<and> selectRows c \<lparr>qb_alias = nameSingular (metaOf ea),
                   qb_filters = [(nameSingular (metaOf ea), filterOf ea)]\<rparr> (db w) = Inr rowsE
             \<and> updateRows c \<lparr>qb_alias = nameSingular (metaOf ea),
                   qb_filters = [(computeTableName c (nameSingular (metaOf ea)) (isCustom (metaOf ea)), filterOf ea)]\<rparr>
                   (formatData c (data (args ea)) (metaOf ea)) (db w) = Inr (rowsU, db')
             \<and> a = \<lparr>nr_objectMetadataMaps = objectMetadataMaps (options ea),
                     nr_parentObjectMetadataItem = metaOf ea,
                     nr_parentObjectRecords =
                       [length (heap w) ..< length (heap w) + length rowsE]
                       @ [length (heap w) + length rowsE ..< length (heap w) + length rowsE + length rowsU],
                     nr_relations = rel,
                     nr_limit = QUERY_MAX_RECORDS c,
                     nr_authContext = authContext (options ea),
                     nr_workspaceDataSource = workspaceDataSource ea,
                     nr_roleId = roleId ea,
                     nr_shouldBypassPermissionChecks = isExecutedByApiKey ea\<rparr>
             \<and> (\<forall>q \<in> set (nr_parentObjectRecords a). q < length (heap w'))
             \<and> (case hydrate c a db'
                        (map (\<lambda>row. formatRow c row (metaOf ea) (objectMetadataMaps (options ea))) rowsE
                         @ map (\<lambda>row. formatRow c row (metaOf ea) (objectMetadataMaps (options ea))) rowsU) of
                    Inl e \<Rightarrow> r = Inl e
                  | Inr f \<Rightarrow>
                      map (\<lambda>p. heap w' ! p) (nr_parentObjectRecords a)
                        = map f (map (\<lambda>row. formatRow c row (metaOf ea) (objectMetadataMaps (options ea))) rowsE
                                 @ map (\<lambda>row. formatRow c row (metaOf ea) (objectMetadataMaps (options ea))) rowsU))))
       \<and> (isl r \<or> length (filter isHydrate (newEvents w w'))
                      = (if truthy_opt (relations (graphqlQuerySelectedFieldsResult ea)) then 1 else 0))"
  using assms
proof (cases rule: resolve_cases [of c ea w])
  case (hydrator_threw rowsE rowsU db' rel e)
  with assms have w': "w' = afterFailedHydration c ea w rowsE rowsU db' rel" and r: "r = Inl e"
    by simp_all
  show ?thesis
    using hydrator_threw(2,5,7,8,9)
    by (auto simp: w' r newEvents_def worlds helpers)
next
  case (hydrated rowsE rowsU db' rel f)
  with assms have w': "w' = afterHydration c ea w rowsE rowsU db' rel f"
    by simp
  have "map (\<lambda>p. (heap w @ map f (formatted c ea rowsE) @ map f (formatted c ea rowsU)
                     @ formatted c ea rowsE @ formatted c ea rowsU) ! p)
          ([length (heap w) ..< length (heap w) + length rowsE]
            @ [length (heap w) + length rowsE ..< length (heap w) + (length rowsE + length rowsU)])
        = map f (formatted c ea rowsE) @ map f (formatted c ea rowsU)"
    using clone_first [where H = "heap w" and fE = "map f (formatted c ea rowsE)" and nE = "length rowsE"
        and Z = "map f (formatted c ea rowsU) @ formatted c ea rowsE @ formatted c ea rowsU"]
      clone_second [where H = "heap w" and fE = "map f (formatted c ea rowsE)" and nE = "length rowsE"
        and fU = "map f (formatted c ea rowsU)" and nU = "length rowsU"
        and Z = "formatted c ea rowsE @ formatted c ea rowsU"]
    by (simp add: formatted_def)
  then show ?thesis
    using hydrated(2,5,7,8,9)
    by (auto simp: w' newEvents_def worlds helpers truthy_opt_def add.assoc)
qed (auto simp: run_simps)

text \<open>
  Claim C8, as amended. The hydrator is invoked only when the selection's \<^verbatim>\<open>relations\<close>
  member is truthy, and a successful call has invoked it exactly once in that case and not
  at all otherwise. A selection that requests related entities has a truthy member, so a
  successful call has then invoked the hydrator once; an empty selection object is truthy
  too. When invoked the hydrator receives the existing records followed by the updated
  records (the working objects themselves, holding the formatted rows of the read and of
  the write), the \<^verbatim>\<open>relations\<close> member, \<^verbatim>\<open>QUERY_MAX_RECORDS\<close> as limit, the
  authentication context, and \<^verbatim>\<open>isExecutedByApiKey\<close> as the permission-bypass flag;
  what it attaches is found on those same objects afterwards.
\<close>

theorem hydrator_invocation:
  assumes "resolve c ea w = (r, w')"
  shows "((\<forall>a. EvProcessNestedRelations a \<in> set (newEvents w w') \<longrightarrow>
            (\<exists>rel rowsE rowsU db'.
               relations (graphqlQuerySelectedFieldsResult ea) = Some rel \<and> truthy rel
             \<and> selectRows c \<lparr>qb_alias = nameSingular (metaOf ea),
                   qb_filters = [(nameSingular (metaOf ea), filterOf ea)]\<rparr> (db w) = Inr rowsE
             \<and> updateRows c \<lparr>qb_alias = nameSingular (metaOf ea),
                   qb_filters = [(computeTableName c (nameSingular (metaOf ea)) (isCustom (metaOf ea)), filterOf ea)]\<rparr>
                   (formatData c (data (args ea)) (metaOf ea)) (db w) = Inr (rowsU, db')
             \<and> a = \<lparr>nr_objectMetadataMaps = objectMetadataMaps (options ea),
                     nr_parentObjectMetadataItem = metaOf ea,
                     nr_parentObjectRecords =
                       [length (heap w) ..< length (heap w) + length rowsE]
                       @ [length (heap w) + length rowsE ..< length (heap w) + length rowsE + length rowsU],
                     nr_relations = rel,
                     nr_limit = QUERY_MAX_RECORDS c,
                     nr_authContext = authContext (options ea),
                     nr_workspaceDataSource = workspaceDataSource ea,
                     nr_roleId = roleId ea,
                     nr_shouldBypassPermissionChecks = isExecutedByApiKey ea\<rparr>
             \<and> (\<forall>q \<in> set (nr_parentObjectRecords a). q < length (heap w'))
             \<and> (case hydrate c a db'
                        (map (\<lambda>row. formatRow c row (metaOf ea) (objectMetadataMaps (options ea))) rowsE
                         @ map (\<lambda>row. formatRow c row (metaOf ea) (objectMetadataMaps (options ea))) rowsU) of
                    Inl e \<Rightarrow> r = Inl e
                  | Inr f \<Rightarrow>
                      map (\<lambda>p. heap w' ! p) (nr_parentObjectRecords a)
                        = map f (map (\<lambda>row. formatRow c row (metaOf ea) (objectMetadataMaps (options ea))) rowsE
                                 @ map (\<lambda>row. formatRow c row (metaOf ea) (objectMetadataMaps (options ea))) rowsU))))
       \<and> (isl r \<or> length (filter isHydrate (newEvents w w'))
                      = (if truthy_opt (relations (graphqlQuerySelectedFieldsResult ea)) then 1 else 0)))
       \<and> (isl r \<or> (requestsRelations (relations (graphqlQuerySelectedFieldsResult ea)) \<longrightarrow>
                      length (filter isHydrate (newEvents w w')) = 1))"
  using hydrator_calls [OF assms]
    requests_truthy [of "relations (graphqlQuerySelectedFieldsResult ea)"]
  by auto

text \<open>The theorem at work on the table of tasks.\<close>

theorem hydrator_invocation_witness:
  "\<exists>r w' a. resolve tableStore (updateTwo (Some companySelection)) tasks = (r, w')
     \<and> filter isHydrate (newEvents tasks w') = [EvProcessNestedRelations a]
     \<and> nr_parentObjectRecords a = [0, 1, 2, 3]
     \<and> nr_relations a = companySelection
     \<and> nr_limit a = 200
     \<and> nr_shouldBypassPermissionChecks a
     \<and> map (\<lambda>p. heap w' ! p) (nr_parentObjectRecords a)
         = [task idA ''open'' @ [(''company'', companySelection)],
            task idB ''done'' @ [(''company'', companySelection)],
            task idA ''done'' @ [(''company'', companySelection)],
            task idB ''done'' @ [(''company'', companySelection)]]"
proof -
  let ?ea = "updateTwo (Some companySelection)"
  let ?a = "hydrationArgs tableStore ?ea tasks 2 2 companySelection"
  obtain r w' where run: "resolve tableStore ?ea tasks = (r, w')"
    and w': "w' = afterHydration tableStore ?ea tasks
        [task idA ''open'', task idB ''done''] [task idA ''done'', task idB ''done'']
        [task idA ''done'', task idB ''done'', task idC ''open''] companySelection
        (\<lambda>r. r @ [(''company'', companySelection)])"
    using run_hydrated by simp
  have hy: "filter isHydrate (newEvents tasks w') = [EvProcessNestedRelations ?a]"
    by (simp add: w' run_simps)
  then have "EvProcessNestedRelations ?a \<in> set (filter isHydrate (newEvents tasks w'))"
    by simp
  then have "EvProcessNestedRelations ?a \<in> set (newEvents tasks w')"
    by simp
  with hydrator_invocation [OF run] obtain rel rowsE rowsU db' where
    sel: "selectRows tableStore
       \<lparr>qb_alias = nameSingular (metaOf ?ea),
          qb_filters = [(nameSingular (metaOf ?ea), filterOf ?ea)]\<rparr> (db tasks) = Inr rowsE"
    and upd: "updateRows tableStore
       \<lparr>qb_alias = nameSingular (metaOf ?ea),
          qb_filters = [(computeTableName tableStore (nameSingular (metaOf ?ea)) (isCustom (metaOf ?ea)),
                         filterOf ?ea)]\<rparr>
       (formatData tableStore (data (args ?ea)) (metaOf ?ea)) (db tasks) = Inr (rowsU, db')"
    and a: "?a = \<lparr>nr_objectMetadataMaps = objectMetadataMaps (options ?ea),
                     nr_parentObjectMetadataItem = metaOf ?ea,
                     nr_parentObjectRecords =
                       [length (heap tasks) ..< length (heap tasks) + length rowsE]
                       @ [length (heap tasks) + length rowsE ..< length (heap tasks) + length rowsE + length rowsU],
                     nr_relations = rel,
                     nr_limit = QUERY_MAX_RECORDS tableStore,
                     nr_authContext = authContext (options ?ea),
                     nr_workspaceDataSource = workspaceDataSource ?ea,
                     nr_roleId = roleId ?ea,
                     nr_shouldBypassPermissionChecks = isExecutedByApiKey ?ea\<rparr>"
    and rel: "relations (graphqlQuerySelectedFieldsResult ?ea) = Some rel"
    by blast
  from sel have rowsE: "rowsE = [task idA ''open'', task idB ''done'']"
    by (simp add: select_updateTwo)
  from upd have rowsU: "rowsU = [task idA ''done'', task idB ''done'']"
    by (simp add: update_updateTwo)
  from rel have rel': "rel = companySelection"
    by (simp add: updateTwo_def call_def)
  have args: "nr_parentObjectRecords ?a = [0, 1, 2, 3]"
    "nr_relations ?a = companySelection"
    "nr_limit ?a = 200"
    "nr_shouldBypassPermissionChecks ?a"
    by (subst a, simp add: rowsE rowsU rel' tasks_def tableStore_def updateTwo_def call_def upt_rec)+
  have work: "map (\<lambda>p. heap w' ! p) [0, 1, 2, 3]
         = [task idA ''open'' @ [(''company'', companySelection)],
            task idB ''done'' @ [(''company'', companySelection)],
            task idA ''done'' @ [(''company'', companySelection)],
            task idB ''done'' @ [(''company'', companySelection)]]"
    by (simp add: w' afterHydration_def formatted_def tableStore_def tasks_def)
  show ?thesis
    by (rule exI [of _ r], rule exI [of _ w'], rule exI [of _ ?a]) (use work in \<open>simp add: run hy args\<close>)
qed

text \<open>
  The claim as stated fails for an empty selection: no related entity is requested, the
  \<^verbatim>\<open>relations\<close> member is an object and therefore truthy, and the successful call has
  invoked the hydrator.
\<close>

theorem empty_selection_invokes_hydrator:
  "\<not> requestsRelations (relations (graphqlQuerySelectedFieldsResult (updateTwo (Some emptySelection))))
   \<and> \<not> isl (fst (resolve tableStore (updateTwo (Some emptySelection)) tasks))
   \<and> length (filter isHydrate
               (newEvents tasks (snd (resolve tableStore (updateTwo (Some emptySelection)) tasks)))) = 1"
  apply (simp only: run_empty_selection snd_conv fst_conv)
  apply (simp add: run_simps requestsRelations_def emptySelection_def updateTwo_def call_def)
  done

subsection \<open>C9\<close>

text \<open>
  Claim C9. The result of a successful call is \<^verbatim>\<open>processRecord\<close> with \<^verbatim>\<open>take: 1\<close> and
  \<^verbatim>\<open>totalCount: 1\<close>, under the singular name, of each updated record, one per row the
  write returned and in that order; the records are the formatted rows, with the relations
  the hydrator attached when it ran.
\<close>

theorem output_is_connection_per_row:
  assumes "resolve c ea w = (Inr out, w')"
  shows "\<exists>rowsE rowsU g.
           selectRows c \<lparr>qb_alias = nameSingular (metaOf ea),
               qb_filters = [(nameSingular (metaOf ea), filterOf ea)]\<rparr> (db w) = Inr rowsE
         \<and> updateRows c \<lparr>qb_alias = nameSingular (metaOf ea),
               qb_filters = [(computeTableName c (nameSingular (metaOf ea)) (isCustom (metaOf ea)), filterOf ea)]\<rparr>
               (formatData c (data (args ea)) (metaOf ea)) (db w) = Inr (rowsU, db w')
         \<and> out = map (\<lambda>a. processRecord c (objectMetadataMaps (options ea)) (heap w' ! a)
                          (nameSingular (metaOf ea)) 1 1)
                    [length (heap w) + length rowsE ..< length (heap w) + length rowsE + length rowsU]
         \<and> out = map (\<lambda>row. processRecord c (objectMetadataMaps (options ea))
                           (g (formatRow c row (metaOf ea) (objectMetadataMaps (options ea))))
                           (nameSingular (metaOf ea)) 1 1) rowsU
         \<and> length out = length rowsU
         \<and> length (heap w) + length rowsE + length rowsU \<le> length (heap w')
         \<and> (if truthy_opt (relations (graphqlQuerySelectedFieldsResult ea))
              then \<exists>a. EvProcessNestedRelations a \<in> set (newEvents w w')
                     \<and> hydrate c a (db w')
                           (map (\<lambda>row. formatRow c row (metaOf ea) (objectMetadataMaps (options ea))) rowsE
                            @ map (\<lambda>row. formatRow c row (metaOf ea) (objectMetadataMaps (options ea))) rowsU)
                         = Inr g
              else g = (\<lambda>r. r))"
  using assms
proof (cases rule: resolve_cases [of c ea w])
  case (unhydrated rowsE rowsU db')
  with assms have w': "w' = afterEmission c ea w rowsE rowsU db'"
    and out: "out = shaped c ea (formatted c ea rowsU)"
    by simp_all
  show ?thesis
    apply (rule exI [of _ rowsE])
    apply (rule exI [of _ rowsU])
    apply (rule exI [of _ "\<lambda>r. r"])
    using unhydrated(2,5,7) shaping_unhydrated [of c ea w rowsE rowsU db']
    apply (simp add: w' out shaped_def)
    apply (simp add: worlds helpers shapingStage_def comp_def add.assoc)
    done
next
  case (hydrated rowsE rowsU db' rel f)
  with assms have w': "w' = afterHydration c ea w rowsE rowsU db' rel f"
    and out: "out = shaped c ea (map f (formatted c ea rowsU))"
    by simp_all
  show ?thesis
    apply (rule exI [of _ rowsE])
    apply (rule exI [of _ rowsU])
    apply (rule exI [of _ f])
    using hydrated(2,5,7,8,9) shaping_hydrated [of c ea w rowsE rowsU db' rel f]
    apply (simp add: w' out shaped_def)
    apply (simp add: newEvents_def worlds helpers shapingStage_def comp_def add.assoc truthy_opt_def)
    done
qed simp_all

text \<open>The theorem at work on the table of tasks.\<close>

theorem output_is_connection_per_row_witness:
  "\<exists>w'. resolve tableStore (updateTwo None) tasks =
       (Inr [JObj [(''edges'', JArr [JObj [(''node'', JObj (task idA ''done''))]]), (''totalCount'', JNum 1)],
             JObj [(''edges'', JArr [JObj [(''node'', JObj (task idB ''done''))]]), (''totalCount'', JNum 1)]],
        w')"
proof -
  let ?ea = "updateTwo None"
  obtain out w' where run: "resolve tableStore ?ea tasks = (Inr out, w')"
    using run_unhydrated by simp
  from output_is_connection_per_row [OF run] obtain rowsE rowsU g where
    upd: "updateRows tableStore
       \<lparr>qb_alias = nameSingular (metaOf ?ea),
          qb_filters = [(computeTableName tableStore (nameSingular (metaOf ?ea)) (isCustom (metaOf ?ea)),
                         filterOf ?ea)]\<rparr>
       (formatData tableStore (data (args ?ea)) (metaOf ?ea)) (db tasks) = Inr (rowsU, db w')"
    and out: "out = map (\<lambda>row. processRecord tableStore (objectMetadataMaps (options ?ea))
                           (g (formatRow tableStore row (metaOf ?ea) (objectMetadataMaps (options ?ea))))
                           (nameSingular (metaOf ?ea)) 1 1) rowsU"
    and g: "if truthy_opt (relations (graphqlQuerySelectedFieldsResult ?ea))
              then \<exists>a. EvProcessNestedRelations a \<in> set (newEvents tasks w')
                     \<and> hydrate tableStore a (db w')
                           (map (\<lambda>row. formatRow tableStore row (metaOf ?ea) (objectMetadataMaps (options ?ea))) rowsE
                            @ map (\<lambda>row. formatRow tableStore row (metaOf ?ea) (objectMetadataMaps (options ?ea))) rowsU)
                         = Inr g
              else g = (\<lambda>r. r)"
    by (elim exE conjE) (rule that)
  from upd have rowsU: "rowsU = [task idA ''done'', task idB ''done'']"
    by (simp add: update_updateTwo)
  from g have g': "g = (\<lambda>r. r)"
    by (simp add: truthy_opt_def updateTwo_def call_def)
  have "out =
       [JObj [(''edges'', JArr [JObj [(''node'', JObj (task idA ''done''))]]), (''totalCount'', JNum 1)],
        JObj [(''edges'', JArr [JObj [(''node'', JObj (task idB ''done''))]]), (''totalCount'', JNum 1)]]"
    by (simp add: out rowsU g' tableStore_def)
  with run show ?thesis
    by simp
qed

subsection \<open>C10\<close>

text \<open>
  Claim C10. On a target that is not remote, a filter object with no top-level \<^verbatim>\<open>id\<close>
  clause passes validation, and so does one whose top-level \<^verbatim>\<open>id\<close> clause has no
  \<^verbatim>\<open>in\<close> operator, whatever they hold elsewhere; and two filter objects with the same
  top-level \<^verbatim>\<open>id\<close> clause are validated alike.
\<close>

theorem validation_reaches_top_level_only:
  assumes "\<not> isRemote (objectMetadataItemWithFieldMaps opts)"
    and "filter' a = Some (JObj kvs)"
  shows "(map_of kvs ''id'' = None \<longrightarrow> validate P a opts = Inr ())
       \<and> (\<forall>ops. map_of kvs ''id'' = Some (JObj ops) \<and> map_of ops ''in'' = None \<longrightarrow>
            validate P a opts = Inr ())
       \<and> (\<forall>a' kvs'. filter' a' = Some (JObj kvs') \<and> map_of kvs' ''id'' = map_of kvs ''id'' \<longrightarrow>
            validate P a' opts = validate P a opts)"
  using assms
  by (auto simp: validate_def assertMutationNotOnRemoteObject_def truthy_opt_def)

text \<open>The theorem at work on the table of tasks.\<close>

theorem validation_reaches_top_level_only_witness:
  "validate uuidSyntax (args (call taskMeta (Some nestedFilter) None))
       (options (call taskMeta (Some nestedFilter) None)) = Inr ()
   \<and> validate uuidSyntax (args (call taskMeta (Some otherOperators) None))
       (options (call taskMeta (Some otherOperators) None)) = Inr ()
   \<and> JStr ''not-a-uuid'' \<in> set (idInValues nestedFilter)
   \<and> \<not> uuidSyntax (JStr ''not-a-uuid'')"
proof -
  have "validate uuidSyntax (args (call taskMeta (Some nestedFilter) None))
       (options (call taskMeta (Some nestedFilter) None)) = Inr ()"
    using validation_reaches_top_level_only [of "options (call taskMeta (Some nestedFilter) None)"
        "args (call taskMeta (Some nestedFilter) None)"
        "[(''and'', JArr [idIn [JStr ''not-a-uuid'']])]" uuidSyntax]
    by (simp add: call_def taskMeta_def nestedFilter_def)
  moreover have "validate uuidSyntax (args (call taskMeta (Some otherOperators) None))
       (options (call taskMeta (Some otherOperators) None)) = Inr ()"
    using validation_reaches_top_level_only [of "options (call taskMeta (Some otherOperators) None)"
        "args (call taskMeta (Some otherOperators) None)"
        "[(''or'', JArr [idIn [JStr ''not-a-uuid'']]),
          (''id'', JObj [(''eq'', JStr ''not-a-uuid'')]),
          (''ownerId'', JObj [(''in'', JArr [JStr ''not-a-uuid''])])]" uuidSyntax]
    by (simp add: call_def taskMeta_def otherOperators_def)
  moreover have "JStr ''not-a-uuid'' \<in> set (idInValues nestedFilter)"
    and "\<not> uuidSyntax (JStr ''not-a-uuid'')"
    by (simp_all add: nestedFilter_def idIn_def uuidSyntax_def)
  ultimately show ?thesis
    by simp
qed

end
